theory Spec2Isabelle
  imports Complex_Main "HOL-Library.AList"
begin

section \<open>JavaScript values\<close>

text \<open>
  The services are TypeScript. Condition and prerequisite values are typed \<open>any\<close>; they
  are modelled by the JSON scalars. A JavaScript \<open>number\<close> is modelled by a rational:
  every finite double is one, and the rounding of double arithmetic is not modelled.
  A numeric field that is \<open>undefined\<close> or \<open>NaN\<close> is \<open>None\<close>: both propagate through
  arithmetic as \<open>NaN\<close> and make every comparison false.
\<close>

datatype jsval = VStr string | VNum rat | VBool bool

fun truthy :: "jsval option \<Rightarrow> bool" where
  "truthy None = False"
| "truthy (Some (VStr s)) = (s \<noteq> [])"
| "truthy (Some (VNum r)) = (r \<noteq> 0)"
| "truthy (Some (VBool b)) = b"

definition truthyStr :: "string option \<Rightarrow> bool" where
  "truthyStr s = (case s of None \<Rightarrow> False | Some t \<Rightarrow> t \<noteq> [])"

text \<open>A value interpolated into a template literal: \<open>undefined\<close> prints as its name.\<close>

definition tpl :: "string option \<Rightarrow> string" where
  "tpl s = (case s of None \<Rightarrow> ''undefined'' | Some t \<Rightarrow> t)"

text \<open>\<open>s.trim().length === 0\<close>: the string holds white space only (ASCII white space here).\<close>

definition isSpace :: "char \<Rightarrow> bool" where
  "isSpace c = (c \<in> set [CHR '' '', CHR 0x09, CHR 0x0A, CHR 0x0B, CHR 0x0C, CHR 0x0D])"

definition blank :: "string \<Rightarrow> bool" where
  "blank s = list_all isSpace s"

text \<open>\<open>!s || s.trim().length === 0\<close> on a string that may be null.\<close>

definition missingText :: "string option \<Rightarrow> bool" where
  "missingText s = (case s of None \<Rightarrow> True | Some t \<Rightarrow> blank t)"

section \<open>Story elements\<close>

record condition =
  ctype :: "string option"
  operator :: "string option"
  cvalue :: "jsval option"
  ctarget :: "string option"

text \<open>
  A prerequisite is read by the validator through \<open>id\<close> and \<open>conditions\<close>, and by the
  simulator through \<open>type\<close>, \<open>target\<close> and \<open>value\<close>.
\<close>

record prerequisite =
  prereq_id :: "string option"
  prereq_conditions :: "condition list option"
  prereq_type :: "string option"
  prereq_target :: "string option"
  prereq_value :: "jsval option"

record outcome =
  outcome_description :: "string option"
  probability :: "rat option"
  nextQuestId :: "string option"
  outcome_conditions :: "condition list option"

record story_arc =
  arc_id :: string
  arc_title :: string

record quest =
  quest_id :: string
  title :: string
  description :: "string option"
  storyArcId :: "string option"
  prerequisites :: "prerequisite list option"
  outcomes :: "outcome list option"
  quest_type :: string
  difficulty :: rat
  estimated_duration :: "rat option"

record dialogue =
  dialogue_id :: string
  dialogue_title :: string
  questId :: "string option"

section \<open>Validation results\<close>

datatype error_type =
  orphan | unreachable | broken_chain | invalid_condition | circular_dependency
  | missing_prerequisites

datatype severity = Error | Warning

datatype node_type = StoryArcNode | QuestNode | DialogueNode

text \<open>
  The message of a finding: one constructor for each message template of the service,
  carrying the values the template interpolates.
\<close>

datatype message =
    NoConnections node_type string
  | UnreachableFromStart node_type string
  | PrerequisitesButNoIncoming string
  | CircularInvolving node_type string
  | NonExistentPrerequisite string
  | InvalidConditionInPrerequisites string
  | InvalidConditionInOutcomes string
  | TitleRequired
  | DescriptionRequired
  | AtLeastOneOutcome
  | ProbabilitiesMustSum rat
  | PrerequisiteIdRequired
  | OutcomeDescriptionRequired nat
  | OutcomeProbabilityRange nat

record validation_error =
  etype :: error_type
  nodeId :: "string option"
  message :: message
  severity :: severity
  suggestions :: "string list option"

record summary =
  totalNodes :: nat
  totalEdges :: nat
  orphanNodes :: nat
  unreachableNodes :: nat
  brokenChains :: nat
  circularDependencies :: nat

record validation_result =
  isValid :: bool
  errors :: "validation_error list"
  warnings :: "validation_error list"
  exportReady :: bool
  summary :: summary

section \<open>The graph and its builder\<close>

datatype node_data = ArcData story_arc | QuestData quest | DialogueData dialogue

text \<open>
  \<open>incoming\<close> holds source ids: the id of a prerequisite may be undefined, and is
  pushed as it is.
\<close>

record node =
  node_id :: string
  ntype :: node_type
  label :: string
  ndata :: node_data
  incoming :: "string option list"
  outgoing :: "string list"

datatype edge_type = belongs_to | prerequisite_edge | outcome_edge

datatype edge_data = NoData | PrereqData prerequisite | OutcomeData outcome

record edge =
  edge_id :: string
  source :: "string option"
  target :: string
  edge_kind :: edge_type
  edata :: edge_data

text \<open>
  A JavaScript \<open>Map\<close> iterates in insertion order, and \<open>set\<close> on a key that is present
  replaces the value in place: an association list with \<open>AList.update\<close>.
\<close>

record graph =
  nodes :: "(string \<times> node) list"
  edges :: "(string \<times> edge) list"

definition addEdgeToNodes ::
  "(string \<times> node) list \<Rightarrow> string option \<Rightarrow> string \<Rightarrow> (string \<times> node) list" where
  "addEdgeToNodes ns sourceId targetId =
     (let ns1 = (case sourceId of
                   None \<Rightarrow> ns
                 | Some s \<Rightarrow> (case map_of ns s of
                       None \<Rightarrow> ns
                     | Some sourceNode \<Rightarrow>
                         AList.update s (sourceNode\<lparr>outgoing := outgoing sourceNode @ [targetId]\<rparr>) ns))
      in (case map_of ns1 targetId of
            None \<Rightarrow> ns1
          | Some targetNode \<Rightarrow>
              AList.update targetId (targetNode\<lparr>incoming := incoming targetNode @ [sourceId]\<rparr>) ns1))"

definition addArcNode :: "story_arc \<Rightarrow> (string \<times> node) list \<Rightarrow> (string \<times> node) list" where
  "addArcNode arc ns =
     AList.update (arc_id arc)
       \<lparr>node_id = arc_id arc, ntype = StoryArcNode, label = arc_title arc,
        ndata = ArcData arc, incoming = [], outgoing = []\<rparr> ns"

definition addQuestNode :: "quest \<Rightarrow> (string \<times> node) list \<Rightarrow> (string \<times> node) list" where
  "addQuestNode q ns =
     AList.update (quest_id q)
       \<lparr>node_id = quest_id q, ntype = QuestNode, label = title q,
        ndata = QuestData q, incoming = [], outgoing = []\<rparr> ns"

definition addDialogueNode :: "dialogue \<Rightarrow> (string \<times> node) list \<Rightarrow> (string \<times> node) list" where
  "addDialogueNode d ns =
     AList.update (dialogue_id d)
       \<lparr>node_id = dialogue_id d, ntype = DialogueNode, label = dialogue_title d,
        ndata = DialogueData d, incoming = [], outgoing = []\<rparr> ns"

definition edgeId :: "string option \<Rightarrow> string \<Rightarrow> string" where
  "edgeId s t = tpl s @ ''_to_'' @ t"

definition addArcEdge :: "quest \<Rightarrow> graph \<Rightarrow> graph" where
  "addArcEdge q g =
     (case storyArcId q of
        None \<Rightarrow> g
      | Some a \<Rightarrow>
          if a = [] then g
          else \<lparr>nodes = addEdgeToNodes (nodes g) (Some (quest_id q)) a,
                edges = AList.update (edgeId (Some (quest_id q)) a)
                  \<lparr>edge_id = edgeId (Some (quest_id q)) a, source = Some (quest_id q),
                   target = a, edge_kind = belongs_to, edata = NoData\<rparr> (edges g)\<rparr>)"

definition addPrereqEdge :: "quest \<Rightarrow> prerequisite \<Rightarrow> graph \<Rightarrow> graph" where
  "addPrereqEdge q prereq g =
     \<lparr>nodes = addEdgeToNodes (nodes g) (prereq_id prereq) (quest_id q),
      edges = AList.update (edgeId (prereq_id prereq) (quest_id q))
        \<lparr>edge_id = edgeId (prereq_id prereq) (quest_id q), source = prereq_id prereq,
         target = quest_id q, edge_kind = prerequisite_edge, edata = PrereqData prereq\<rparr>
        (edges g)\<rparr>"

definition addOutcomeEdge :: "quest \<Rightarrow> outcome \<Rightarrow> graph \<Rightarrow> graph" where
  "addOutcomeEdge q oc g =
     (case nextQuestId oc of
        None \<Rightarrow> g
      | Some nxt \<Rightarrow>
          if nxt = [] then g
          else \<lparr>nodes = addEdgeToNodes (nodes g) (Some (quest_id q)) nxt,
                edges = AList.update (edgeId (Some (quest_id q)) nxt)
                  \<lparr>edge_id = edgeId (Some (quest_id q)) nxt, source = Some (quest_id q),
                   target = nxt, edge_kind = outcome_edge, edata = OutcomeData oc\<rparr> (edges g)\<rparr>)"

text \<open>\<open>xs?.forEach(f)\<close>: nothing happens when the list is undefined.\<close>

definition optList :: "'a list option \<Rightarrow> 'a list" where
  "optList xs = (case xs of None \<Rightarrow> [] | Some ys \<Rightarrow> ys)"

definition addQuestEdges :: "quest \<Rightarrow> graph \<Rightarrow> graph" where
  "addQuestEdges q g =
     fold (addOutcomeEdge q) (optList (outcomes q))
       (fold (addPrereqEdge q) (optList (prerequisites q)) (addArcEdge q g))"

definition addDialogueEdge :: "dialogue \<Rightarrow> graph \<Rightarrow> graph" where
  "addDialogueEdge d g =
     (case questId d of
        None \<Rightarrow> g
      | Some qid \<Rightarrow>
          if qid = [] then g
          else \<lparr>nodes = addEdgeToNodes (nodes g) (Some (dialogue_id d)) qid,
                edges = AList.update (edgeId (Some (dialogue_id d)) qid)
                  \<lparr>edge_id = edgeId (Some (dialogue_id d)) qid, source = Some (dialogue_id d),
                   target = qid, edge_kind = belongs_to, edata = NoData\<rparr> (edges g)\<rparr>)"

definition buildGraph :: "story_arc list \<Rightarrow> quest list \<Rightarrow> dialogue list \<Rightarrow> graph" where
  "buildGraph storyArcs quests dialogues =
     (let ns = fold addDialogueNode dialogues
                 (fold addQuestNode quests (fold addArcNode storyArcs []))
      in fold addDialogueEdge dialogues
           (fold addQuestEdges quests \<lparr>nodes = ns, edges = []\<rparr>))"

section \<open>Validation passes over the graph\<close>

definition orphanSuggestions :: "string list" where
  "orphanSuggestions =
     [''Connect this node to other story elements'', ''Add prerequisites or outcomes'',
      ''Consider removing if not needed'']"

definition unreachableSuggestions :: "string list" where
  "unreachableSuggestions =
     [''Add a connection from a story arc'', ''Create a prerequisite relationship'',
      ''Ensure there is a path from the beginning'']"

definition brokenChainSuggestions :: "string list" where
  "brokenChainSuggestions =
     [''Connect prerequisite quests to this quest'', ''Remove prerequisites if not needed'',
      ''Create the missing prerequisite quests'']"

definition circularSuggestions :: "string list" where
  "circularSuggestions =
     [''Remove one of the circular connections'', ''Restructure the quest flow'',
      ''Use conditional outcomes instead of direct cycles'']"

definition missingPrerequisiteSuggestions :: "string list" where
  "missingPrerequisiteSuggestions =
     [''Create the missing prerequisite quest'', ''Remove the invalid prerequisite reference'',
      ''Update the prerequisite ID'']"

definition conditionSuggestions :: "string list" where
  "conditionSuggestions =
     [''Check condition syntax and values'', ''Ensure all referenced items/stats exist'',
      ''Validate condition operators'']"

subsection \<open>Orphans\<close>

definition orphanError :: "string \<times> node \<Rightarrow> validation_error" where
  "orphanError kn =
     \<lparr>etype = orphan, nodeId = Some (fst kn),
      message = NoConnections (ntype (snd kn)) (label (snd kn)),
      severity = Warning, suggestions = Some orphanSuggestions\<rparr>"

definition detectOrphanNodes :: "graph \<Rightarrow> validation_error list" where
  "detectOrphanNodes g =
     map orphanError
       (filter (\<lambda>kn. incoming (snd kn) = [] \<and> outgoing (snd kn) = []) (nodes g))"

subsection \<open>Reachability\<close>

text \<open>
  The closure \<open>dfs\<close> of \<open>detectUnreachableNodes\<close> adds to the set \<open>visited\<close>; the set
  is passed in and returned. \<open>dfsEach\<close> is the \<open>forEach\<close> over the outgoing ids.
\<close>

function dfs :: "(string \<times> node) list \<Rightarrow> string \<Rightarrow> string set \<Rightarrow> string set"
  and dfsEach :: "(string \<times> node) list \<Rightarrow> string list \<Rightarrow> string set \<Rightarrow> string set"
where
  "dfs ns nid visited =
     (if nid \<in> visited then visited
      else (case map_of ns nid of
              None \<Rightarrow> insert nid visited
            | Some n \<Rightarrow> dfsEach ns (outgoing n) (insert nid visited)))"
| "dfsEach ns [] visited = visited"
| "dfsEach ns (w # ws) visited = dfsEach ns ws (dfs ns w visited)"
  by pat_completeness auto

lemma dfs_grows_partial:
  "dfs_dfsEach_dom (Inl (ns, v, vis)) \<Longrightarrow> vis \<subseteq> dfs ns v vis"
  "dfs_dfsEach_dom (Inr (ns, ws, vis)) \<Longrightarrow> vis \<subseteq> dfsEach ns ws vis"
proof (induct ns v vis and ns ws vis rule: dfs_dfsEach.pinduct)
  case (1 ns nid visited)
  then show ?case by (auto simp: dfs.psimps split: option.splits)
next
  case (2 ns visited)
  then show ?case by (simp add: dfsEach.psimps)
next
  case (3 ns w ws visited)
  then show ?case by (auto simp: dfsEach.psimps)
qed

lemma card_unvisited_less:
  assumes "map_of ns k = Some n" and "k \<notin> vis"
  shows "card (fst ` set ns - insert k vis) < card (fst ` set ns - vis)"
proof -
  from assms have "k \<in> fst ` set ns - vis"
    by (auto dest: map_of_SomeD intro: rev_image_eqI)
  then show ?thesis
    by (intro psubset_card_mono) auto
qed

lemma card_unvisited_le:
  assumes "vis \<subseteq> vis'"
  shows "card (fst ` set ns - vis') \<le> card (fst ` set ns - vis)"
  using assms by (intro card_mono) auto

termination dfs
  apply (relation "inv_image (less_than <*lex*> less_than)
    (\<lambda>x. case x of
        Inl (ns, v, vis) \<Rightarrow> (card (fst ` set ns - vis), 0)
      | Inr (ns, ws, vis) \<Rightarrow> (card (fst ` set ns - vis), Suc (length ws)))")
  subgoal by (intro wf_inv_image wf_lex_prod wf_less_than)
  subgoal by (simp add: card_unvisited_less)
  subgoal by simp
  subgoal for ns w ws visited
    using card_unvisited_le [of visited "dfs ns w visited" ns] dfs_grows_partial(1) [of ns w visited]
    by auto
  done

definition unreachableError :: "string \<times> node \<Rightarrow> validation_error" where
  "unreachableError kn =
     \<lparr>etype = unreachable, nodeId = Some (fst kn),
      message = UnreachableFromStart (ntype (snd kn)) (label (snd kn)),
      severity = Error, suggestions = Some unreachableSuggestions\<rparr>"

definition startNodes :: "graph \<Rightarrow> node list" where
  "startNodes g =
     filter (\<lambda>n. ntype n = StoryArcNode \<and> incoming n = []) (map snd (nodes g))"

definition reachedFromStart :: "graph \<Rightarrow> string set" where
  "reachedFromStart g = fold (\<lambda>startNode. dfs (nodes g) (node_id startNode)) (startNodes g) {}"

definition detectUnreachableNodes :: "graph \<Rightarrow> validation_error list" where
  "detectUnreachableNodes g =
     map unreachableError (filter (\<lambda>kn. fst kn \<notin> reachedFromStart g) (nodes g))"

subsection \<open>Broken chains\<close>

definition declaredPrerequisites :: "node \<Rightarrow> prerequisite list" where
  "declaredPrerequisites n =
     (case ndata n of QuestData q \<Rightarrow> optList (prerequisites q) | _ \<Rightarrow> [])"

definition brokenChainError :: "string \<times> node \<Rightarrow> validation_error" where
  "brokenChainError kn =
     \<lparr>etype = broken_chain, nodeId = Some (fst kn),
      message = PrerequisitesButNoIncoming (label (snd kn)),
      severity = Error, suggestions = Some brokenChainSuggestions\<rparr>"

definition detectBrokenChains :: "graph \<Rightarrow> validation_error list" where
  "detectBrokenChains g =
     map brokenChainError
       (filter (\<lambda>kn. ntype (snd kn) = QuestNode \<and> incoming (snd kn) = []
                    \<and> declaredPrerequisites (snd kn) \<noteq> []) (nodes g))"

subsection \<open>Circular dependencies\<close>

text \<open>
  The closure \<open>hasCycle\<close> reads and writes the two sets \<open>visited\<close> and
  \<open>recursionStack\<close>; they are passed in and returned with the answer. When the answer
  is \<open>true\<close> the source returns at once, and the ids on the path stay in
  \<open>recursionStack\<close>.
\<close>

function hasCycle ::
    "(string \<times> node) list \<Rightarrow> string \<Rightarrow> string set \<times> string set \<Rightarrow> bool \<times> string set \<times> string set"
  and hasCycleEach ::
    "(string \<times> node) list \<Rightarrow> string list \<Rightarrow> string set \<times> string set \<Rightarrow> bool \<times> string set \<times> string set"
where
  "hasCycle ns nid (visited, recursionStack) =
     (if nid \<in> recursionStack then (True, visited, recursionStack)
      else if nid \<in> visited then (False, visited, recursionStack)
      else (case map_of ns nid of
              None \<Rightarrow> (False, insert nid visited, insert nid recursionStack - {nid})
            | Some n \<Rightarrow>
                (case hasCycleEach ns (outgoing n)
                        (insert nid visited, insert nid recursionStack) of
                   (True, st) \<Rightarrow> (True, st)
                 | (False, visited', recursionStack') \<Rightarrow>
                     (False, visited', recursionStack' - {nid}))))"
| "hasCycleEach ns [] st = (False, st)"
| "hasCycleEach ns (w # ws) st =
     (case hasCycle ns w st of
        (True, st') \<Rightarrow> (True, st')
      | (False, st') \<Rightarrow> hasCycleEach ns ws st')"
  by pat_completeness auto

lemma hasCycle_grows_partial:
  "hasCycle_hasCycleEach_dom (Inl (ns, v, st)) \<Longrightarrow> fst st \<subseteq> fst (snd (hasCycle ns v st))"
  "hasCycle_hasCycleEach_dom (Inr (ns, ws, st)) \<Longrightarrow> fst st \<subseteq> fst (snd (hasCycleEach ns ws st))"
proof (induct ns v st and ns ws st rule: hasCycle_hasCycleEach.pinduct)
  case (1 ns nid visited recursionStack)
  show ?case
  proof (cases "nid \<in> recursionStack \<or> nid \<in> visited")
    case True
    then show ?thesis using 1(1) by (auto simp: hasCycle.psimps)
  next
    case False
    show ?thesis
    proof (cases "map_of ns nid")
      case None
      then show ?thesis using 1(1) False by (auto simp: hasCycle.psimps)
    next
      case (Some n)
      obtain b vis' stk' where r: "hasCycleEach ns (outgoing n) (insert nid visited, insert nid recursionStack) = (b, vis', stk')"
        by (metis prod_cases3)
      from 1(2) [of n] False Some r have "insert nid visited \<subseteq> vis'" by simp
      then show ?thesis using 1(1) False Some r by (cases b) (auto simp: hasCycle.psimps)
    qed
  qed
next
  case (2 ns st)
  then show ?case by (simp add: hasCycleEach.psimps)
next
  case (3 ns w ws st)
  obtain b st' where r: "hasCycle ns w st = (b, st')" by (metis surj_pair)
  show ?case
  proof (cases b)
    case True
    then show ?thesis using 3(1,2) r by (simp add: hasCycleEach.psimps)
  next
    case False
    with 3(3) r have "fst st' \<subseteq> fst (snd (hasCycleEach ns ws st'))" by simp
    moreover from 3(2) r have "fst st \<subseteq> fst st'" by simp
    ultimately show ?thesis using 3(1) r False by (auto simp add: hasCycleEach.psimps)
  qed
qed

termination hasCycle
  apply (relation "inv_image (less_than <*lex*> less_than)
    (\<lambda>x. case x of
        Inl (ns, v, st) \<Rightarrow> (card (fst ` set ns - fst st), 0)
      | Inr (ns, ws, st) \<Rightarrow> (card (fst ` set ns - fst st), Suc (length ws)))")
  subgoal by (intro wf_inv_image wf_lex_prod wf_less_than)
  subgoal by (simp add: card_unvisited_less)
  subgoal by simp
  subgoal for ns w ws st b st'
    using card_unvisited_le [of "fst st" "fst st'" ns] hasCycle_grows_partial(1) [of ns w st]
    by (cases "hasCycle ns w st") auto
  done

definition circularError :: "string \<Rightarrow> node \<Rightarrow> validation_error" where
  "circularError k n =
     \<lparr>etype = circular_dependency, nodeId = Some k,
      message = CircularInvolving (ntype n) (label n),
      severity = Error, suggestions = Some circularSuggestions\<rparr>"

text \<open>
  The loop over the entries of \<open>graph.nodes\<close>. The entry under a key of a \<open>Map\<close> is
  the one \<open>get\<close> returns, so the node of the message is read with \<open>map_of\<close>.
\<close>

fun circularLoop ::
  "(string \<times> node) list \<Rightarrow> (string \<times> node) list \<Rightarrow> string set \<times> string set
     \<Rightarrow> validation_error list" where
  "circularLoop ns [] st = []"
| "circularLoop ns (kn # rest) st =
     (if fst kn \<notin> fst st then
        (case hasCycle ns (fst kn) st of
           (True, st') \<Rightarrow>
             circularError (fst kn) (case map_of ns (fst kn) of Some n \<Rightarrow> n | None \<Rightarrow> snd kn)
               # circularLoop ns rest st'
         | (False, st') \<Rightarrow> circularLoop ns rest st')
      else circularLoop ns rest st)"

definition detectCircularDependencies :: "graph \<Rightarrow> validation_error list" where
  "detectCircularDependencies g = circularLoop (nodes g) (nodes g) ({}, {})"

subsection \<open>Prerequisites and conditions\<close>

definition missingPrerequisiteError :: "string \<times> node \<Rightarrow> validation_error" where
  "missingPrerequisiteError kn =
     \<lparr>etype = missing_prerequisites, nodeId = Some (fst kn),
      message = NonExistentPrerequisite (label (snd kn)),
      severity = Error, suggestions = Some missingPrerequisiteSuggestions\<rparr>"

text \<open>\<open>graph.nodes.has(prereq.id)\<close>; an undefined id is never a key.\<close>

definition hasNode :: "(string \<times> node) list \<Rightarrow> string option \<Rightarrow> bool" where
  "hasNode ns k = (case k of None \<Rightarrow> False | Some i \<Rightarrow> map_of ns i \<noteq> None)"

definition validatePrerequisites :: "graph \<Rightarrow> validation_error list" where
  "validatePrerequisites g =
     concat (map (\<lambda>kn.
         if ntype (snd kn) = QuestNode
         then map (\<lambda>prereq. missingPrerequisiteError kn)
                (filter (\<lambda>prereq. \<not> hasNode (nodes g) (prereq_id prereq))
                   (declaredPrerequisites (snd kn)))
         else []) (nodes g))"

definition validTypes :: "string list" where
  "validTypes = [''stat'', ''inventory'', ''flag'', ''quest'']"

definition validOperators :: "string list" where
  "validOperators = [''eq'', ''gt'', ''lt'', ''gte'', ''lte'', ''ne'', ''has'', ''not_has'']"

definition isValidCondition :: "condition \<Rightarrow> bool" where
  "isValidCondition c =
     (if \<not> truthyStr (ctype c) \<or> \<not> truthyStr (operator c) \<or> \<not> truthy (cvalue c) then False
      else if tpl (ctype c) \<notin> set validTypes then False
      else if tpl (operator c) \<notin> set validOperators then False
      else if ctype c = Some ''stat'' \<and> tpl (operator c) \<in> set [''has'', ''not_has''] then False
      else True)"

definition declaredOutcomes :: "node \<Rightarrow> outcome list" where
  "declaredOutcomes n =
     (case ndata n of QuestData q \<Rightarrow> optList (outcomes q) | _ \<Rightarrow> [])"

definition prerequisiteConditionError :: "string \<times> node \<Rightarrow> validation_error" where
  "prerequisiteConditionError kn =
     \<lparr>etype = invalid_condition, nodeId = Some (fst kn),
      message = InvalidConditionInPrerequisites (label (snd kn)),
      severity = Error, suggestions = Some conditionSuggestions\<rparr>"

definition outcomeConditionError :: "string \<times> node \<Rightarrow> validation_error" where
  "outcomeConditionError kn =
     \<lparr>etype = invalid_condition, nodeId = Some (fst kn),
      message = InvalidConditionInOutcomes (label (snd kn)),
      severity = Error, suggestions = Some conditionSuggestions\<rparr>"

text \<open>The conditions a quest node carries, in the order the validator visits them.\<close>

definition prerequisiteConditions :: "node \<Rightarrow> condition list" where
  "prerequisiteConditions n =
     concat (map (\<lambda>prereq. optList (prereq_conditions prereq)) (declaredPrerequisites n))"

definition outcomeConditions :: "node \<Rightarrow> condition list" where
  "outcomeConditions n =
     concat (map (\<lambda>oc. optList (outcome_conditions oc)) (declaredOutcomes n))"

definition validateConditions :: "graph \<Rightarrow> validation_error list" where
  "validateConditions g =
     concat (map (\<lambda>kn.
         if ntype (snd kn) = QuestNode
         then map (\<lambda>c. prerequisiteConditionError kn)
                (filter (\<lambda>c. \<not> isValidCondition c) (prerequisiteConditions (snd kn)))
              @ map (\<lambda>c. outcomeConditionError kn)
                (filter (\<lambda>c. \<not> isValidCondition c) (outcomeConditions (snd kn)))
         else []) (nodes g))"

subsection \<open>Whole-graph validation\<close>

definition generateSummary ::
  "graph \<Rightarrow> validation_error list \<Rightarrow> validation_error list \<Rightarrow> summary" where
  "generateSummary g errs warns =
     \<lparr>totalNodes = length (nodes g),
      totalEdges = length (edges g),
      orphanNodes = length (filter (\<lambda>e. etype e = orphan) errs),
      unreachableNodes = length (filter (\<lambda>e. etype e = unreachable) errs),
      brokenChains = length (filter (\<lambda>e. etype e = broken_chain) errs),
      circularDependencies = length (filter (\<lambda>e. etype e = circular_dependency) errs)\<rparr>"

definition isError :: "validation_error \<Rightarrow> bool" where
  "isError e = (severity e = Error)"

definition isWarning :: "validation_error \<Rightarrow> bool" where
  "isWarning e = (severity e = Warning)"

text \<open>
  \<open>validateStoryGraph\<close> after the three repository reads: the story arcs, quests and
  dialogues of the project are the arguments.
\<close>

definition validateStoryGraph ::
  "story_arc list \<Rightarrow> quest list \<Rightarrow> dialogue list \<Rightarrow> validation_result" where
  "validateStoryGraph storyArcs quests dialogues =
     (let g = buildGraph storyArcs quests dialogues;
          orphanErrors = detectOrphanNodes g;
          unreachableErrors = detectUnreachableNodes g;
          brokenChainErrors = detectBrokenChains g;
          circularErrors = detectCircularDependencies g;
          prerequisiteErrors = validatePrerequisites g;
          conditionErrors = validateConditions g;
          errs = filter isError orphanErrors @ filter isError unreachableErrors
                 @ filter isError brokenChainErrors @ filter isError circularErrors
                 @ filter isError prerequisiteErrors @ filter isError conditionErrors;
          warns = filter isWarning orphanErrors @ filter isWarning unreachableErrors
                 @ filter isWarning brokenChainErrors @ filter isWarning circularErrors
                 @ filter isWarning prerequisiteErrors @ filter isWarning conditionErrors
      in \<lparr>isValid = (length errs = 0),
          errors = errs,
          warnings = warns,
          exportReady = (length errs = 0 \<and> length warns < 5),
          summary = generateSummary g errs warns\<rparr>)"

section \<open>Quest-local validation\<close>

definition questFinding :: "quest \<Rightarrow> message \<Rightarrow> severity \<Rightarrow> validation_error" where
  "questFinding q m sev =
     \<lparr>etype = broken_chain, nodeId = Some (quest_id q), message = m, severity = sev,
      suggestions = None\<rparr>"

text \<open>\<open>outcome.probability || 0\<close>\<close>

definition probabilityOrZero :: "outcome \<Rightarrow> rat" where
  "probabilityOrZero oc = (case probability oc of None \<Rightarrow> 0 | Some p \<Rightarrow> p)"

definition totalProbability :: "outcome list \<Rightarrow> rat" where
  "totalProbability ocs = foldl (\<lambda>sum oc. sum + probabilityOrZero oc) 0 ocs"

definition validateQuestStructure :: "quest \<Rightarrow> validation_error list" where
  "validateQuestStructure q =
     (if blank (title q) then [questFinding q TitleRequired Error] else [])
     @ (if missingText (description q) then [questFinding q DescriptionRequired Error] else [])
     @ (if optList (outcomes q) = [] then [questFinding q AtLeastOneOutcome Error] else [])
     @ (if optList (outcomes q) \<noteq> [] then
          (if \<bar>totalProbability (optList (outcomes q)) - 100\<bar> > 1 / 100
           then [questFinding q
                   (ProbabilitiesMustSum (totalProbability (optList (outcomes q)))) Warning]
           else [])
        else [])"

definition prerequisiteIdError :: "quest \<Rightarrow> validation_error" where
  "prerequisiteIdError q =
     \<lparr>etype = missing_prerequisites, nodeId = Some (quest_id q),
      message = PrerequisiteIdRequired, severity = Error, suggestions = None\<rparr>"

definition validateQuestPrerequisites :: "quest \<Rightarrow> validation_error list" where
  "validateQuestPrerequisites q =
     map (\<lambda>prereq. prerequisiteIdError q)
       (filter (\<lambda>prereq. \<not> truthyStr (prereq_id prereq)) (optList (prerequisites q)))"

definition probabilityOutOfRange :: "outcome \<Rightarrow> bool" where
  "probabilityOutOfRange oc =
     (case probability oc of None \<Rightarrow> False | Some p \<Rightarrow> p < 0 \<or> p > 100)"

text \<open>The \<open>forEach\<close> over the outcomes with their index.\<close>

fun outcomeErrors :: "quest \<Rightarrow> nat \<Rightarrow> outcome list \<Rightarrow> validation_error list" where
  "outcomeErrors q index [] = []"
| "outcomeErrors q index (oc # rest) =
     (if missingText (outcome_description oc)
      then [questFinding q (OutcomeDescriptionRequired (index + 1)) Error] else [])
     @ (if probabilityOutOfRange oc
        then [questFinding q (OutcomeProbabilityRange (index + 1)) Error] else [])
     @ outcomeErrors q (index + 1) rest"

definition validateQuestOutcomes :: "quest \<Rightarrow> validation_error list" where
  "validateQuestOutcomes q = outcomeErrors q 0 (optList (outcomes q))"

datatype service_error = QuestNotFound string

text \<open>
  \<open>validateQuest\<close>: the repository is the lookup \<open>questRepository\<close>; a quest that is
  not found is the thrown error.
\<close>

definition validateQuest ::
  "(string \<Rightarrow> quest option) \<Rightarrow> string \<Rightarrow> service_error + validation_result" where
  "validateQuest questRepository questId' =
     (case questRepository questId' of
        None \<Rightarrow> Inl (QuestNotFound questId')
      | Some q \<Rightarrow>
          (let questErrors = validateQuestStructure q;
               prerequisiteErrors = validateQuestPrerequisites q;
               outcomeErrs = validateQuestOutcomes q;
               errs = filter isError questErrors @ filter isError prerequisiteErrors
                      @ filter isError outcomeErrs;
               warns = filter isWarning questErrors @ filter isWarning prerequisiteErrors
                      @ filter isWarning outcomeErrs
           in Inr \<lparr>isValid = (length errs = 0),
                   errors = errs,
                   warnings = warns,
                   exportReady = (length errs = 0),
                   summary = \<lparr>totalNodes = 1,
                     totalEdges = length (optList (prerequisites q)) + length (optList (outcomes q)),
                     orphanNodes = 0, unreachableNodes = 0, brokenChains = 0,
                     circularDependencies = 0\<rparr>\<rparr>))"

section \<open>JavaScript numbers and strings in the simulator\<close>

definition jsAdd :: "rat option \<Rightarrow> rat option \<Rightarrow> rat option" where
  "jsAdd a b = (case a of None \<Rightarrow> None | Some x \<Rightarrow> (case b of None \<Rightarrow> None | Some y \<Rightarrow> Some (x + y)))"

definition jsSub :: "rat option \<Rightarrow> rat option \<Rightarrow> rat option" where
  "jsSub a b = (case a of None \<Rightarrow> None | Some x \<Rightarrow> (case b of None \<Rightarrow> None | Some y \<Rightarrow> Some (x - y)))"

definition jsMul :: "rat option \<Rightarrow> rat option \<Rightarrow> rat option" where
  "jsMul a b = (case a of None \<Rightarrow> None | Some x \<Rightarrow> (case b of None \<Rightarrow> None | Some y \<Rightarrow> Some (x * y)))"

text \<open>
  The simulator divides by a positive total and by the constant 100 only; a zero
  divisor (JavaScript's infinities) is outside the model and reads as \<open>NaN\<close>.
\<close>

definition jsDiv :: "rat option \<Rightarrow> rat option \<Rightarrow> rat option" where
  "jsDiv a b =
     (case a of None \<Rightarrow> None
      | Some x \<Rightarrow> (case b of None \<Rightarrow> None | Some y \<Rightarrow> if y = 0 then None else Some (x / y)))"

definition jsGt :: "rat option \<Rightarrow> rat option \<Rightarrow> bool" where
  "jsGt a b = (case a of None \<Rightarrow> False | Some x \<Rightarrow> (case b of None \<Rightarrow> False | Some y \<Rightarrow> x > y))"

definition jsGe :: "rat option \<Rightarrow> rat option \<Rightarrow> bool" where
  "jsGe a b = (case a of None \<Rightarrow> False | Some x \<Rightarrow> (case b of None \<Rightarrow> False | Some y \<Rightarrow> x \<ge> y))"

text \<open>\<open>Math.round\<close> rounds a half up; \<open>Math.floor\<close>; \<open>Math.min\<close> is \<open>NaN\<close> on a \<open>NaN\<close>.\<close>

definition jsRound :: "rat option \<Rightarrow> rat option" where
  "jsRound a = (case a of None \<Rightarrow> None | Some x \<Rightarrow> Some (of_int \<lfloor>x + 1 / 2\<rfloor>))"

definition jsFloor :: "rat option \<Rightarrow> rat option" where
  "jsFloor a = (case a of None \<Rightarrow> None | Some x \<Rightarrow> Some (of_int \<lfloor>x\<rfloor>))"

definition jsMin :: "rat option \<Rightarrow> rat option \<Rightarrow> rat option" where
  "jsMin a b = (case a of None \<Rightarrow> None | Some x \<Rightarrow> (case b of None \<Rightarrow> None | Some y \<Rightarrow> Some (min x y)))"

text \<open>
  The number a value compares as in \<open>x >= value\<close>. How JavaScript reads a string as a
  number is the parameter \<open>toNumber\<close>.
\<close>

definition valueNumber :: "(string \<Rightarrow> rat option) \<Rightarrow> jsval option \<Rightarrow> rat option" where
  "valueNumber toNumber v =
     (case v of
        None \<Rightarrow> None
      | Some (VNum r) \<Rightarrow> Some r
      | Some (VBool b) \<Rightarrow> Some (if b then 1 else 0)
      | Some (VStr s) \<Rightarrow> toNumber s)"

text \<open>\<open>toLowerCase\<close> on ASCII letters, and \<open>haystack.includes(needle)\<close>.\<close>

definition lowerChar :: "char \<Rightarrow> char" where
  "lowerChar c =
     (if (65::nat) \<le> of_char c \<and> of_char c \<le> (90::nat) then char_of (of_char c + (32::nat)) else c)"

definition toLowerCase :: "string \<Rightarrow> string" where
  "toLowerCase s = map lowerChar s"

fun jsIncludes :: "string \<Rightarrow> string \<Rightarrow> bool" where
  "jsIncludes [] needle = (needle = [])"
| "jsIncludes (c # cs) needle = (take (length needle) (c # cs) = needle \<or> jsIncludes cs needle)"

section \<open>Player state\<close>

datatype quest_status = NotStarted | InProgress | Completed | Failed

record quest_progress_entry =
  status :: quest_status
  progress :: rat
  objectives :: "string \<rightharpoonup> bool"

text \<open>
  The objects \<open>stats\<close>, \<open>alignment\<close>, \<open>flags\<close> and \<open>quest_progress\<close> are maps from
  field names, so that an object a caller supplies may lack a field. \<open>reputation\<close> is
  an association list: the simulator enumerates its keys.
\<close>

record player_state =
  stats :: "string \<rightharpoonup> rat"
  reputation :: "(string \<times> rat) list"
  alignment :: "string \<rightharpoonup> rat"
  inventory :: "string list"
  flags :: "string \<rightharpoonup> bool"
  quest_progress :: "string \<rightharpoonup> quest_progress_entry"
  current_location :: string
  current_quest :: "string option"
  current_dialogue :: "string option"

text \<open>\<open>Partial<PlayerState>\<close>: every top-level field may be absent.\<close>

record partial_player_state =
  p_stats :: "(string \<rightharpoonup> rat) option"
  p_reputation :: "(string \<times> rat) list option"
  p_alignment :: "(string \<rightharpoonup> rat) option"
  p_inventory :: "string list option"
  p_flags :: "(string \<rightharpoonup> bool) option"
  p_quest_progress :: "(string \<rightharpoonup> quest_progress_entry) option"
  p_current_location :: "string option"
  p_current_quest :: "string option"
  p_current_dialogue :: "string option"

definition defaultState :: player_state where
  "defaultState =
     \<lparr>stats = [''health'' \<mapsto> 100, ''mana'' \<mapsto> 100, ''experience'' \<mapsto> 0, ''level'' \<mapsto> 1,
               ''gold'' \<mapsto> 50],
      reputation = [(''neutral'', 0), (''townsfolk'', 0), (''merchants'', 0), (''guards'', 0)],
      alignment = [''good'' \<mapsto> 0, ''neutral'' \<mapsto> 50, ''evil'' \<mapsto> 0],
      inventory = [],
      flags = Map.empty,
      quest_progress = Map.empty,
      current_location = ''town_square'',
      current_quest = None,
      current_dialogue = None\<rparr>"

text \<open>\<open>{ ...defaultState, ...partialState }\<close>: a key of the second object wins.\<close>

definition orDefault :: "'a option \<Rightarrow> 'a \<Rightarrow> 'a" where
  "orDefault supplied d = (case supplied of None \<Rightarrow> d | Some v \<Rightarrow> v)"

definition initializePlayerState :: "partial_player_state option \<Rightarrow> player_state" where
  "initializePlayerState partialState =
     (case partialState of
        None \<Rightarrow> defaultState
      | Some p \<Rightarrow>
          \<lparr>stats = orDefault (p_stats p) (stats defaultState),
           reputation = orDefault (p_reputation p) (reputation defaultState),
           alignment = orDefault (p_alignment p) (alignment defaultState),
           inventory = orDefault (p_inventory p) (inventory defaultState),
           flags = orDefault (p_flags p) (flags defaultState),
           quest_progress = orDefault (p_quest_progress p) (quest_progress defaultState),
           current_location = orDefault (p_current_location p) (current_location defaultState),
           current_quest = (case p_current_quest p of None \<Rightarrow> current_quest defaultState
                            | Some c \<Rightarrow> Some c),
           current_dialogue = (case p_current_dialogue p of None \<Rightarrow> current_dialogue defaultState
                               | Some c \<Rightarrow> Some c)\<rparr>)"

section \<open>Simulation data\<close>

record character =
  char_name :: string
  faction :: "string option"
  personality_traits :: "string list option"

record rewards =
  experience :: "rat option"
  gold :: "rat option"
  items :: "string list option"
  reward_flags :: "(string \<times> bool) list option"

record alignment_change =
  good :: rat
  neutral :: rat
  evil :: rat

datatype event_type =
  quest_start | quest_complete | dialogue_event | stat_change | reputation_change
  | alignment_change_event | item_gain | item_loss | flag_set | location_change

datatype event_severity = Info | EventWarning | EventError | Success

datatype event_description =
  StartedQuest string | CompletedQuest string | FailedQuest string | ReputationChanged
  | AlignmentChanged

datatype event_data =
    QuestRef string string
  | QuestRewardData string string rewards
  | ReputationData "(string \<times> rat) list"
  | AlignmentData alignment_change

text \<open>
  The \<open>id\<close> of an event is a fresh string made from the clock and a random number; it
  is left out.
\<close>

record simulation_event =
  timestamp :: nat
  event_kind :: event_type
  event_text :: event_description
  event_payload :: event_data
  event_severity :: event_severity

definition addEvent ::
  "simulation_event list \<Rightarrow> event_type \<Rightarrow> event_description \<Rightarrow> event_data \<Rightarrow> event_severity
     \<Rightarrow> simulation_event list" where
  "addEvent evs k d p sev =
     evs @ [\<lparr>timestamp = length evs * 30, event_kind = k, event_text = d, event_payload = p,
             event_severity = sev\<rparr>]"

record simulation_request =
  project_id :: string
  story_arc_id :: string
  req_initial_state :: "partial_player_state option"
  player_name :: "string option"
  req_difficulty :: "string option"
  play_style :: "string option"
  max_duration :: "rat option"
  random_seed :: "rat option"

record quest_result =
  completed :: bool
  duration :: rat
  result_rewards :: rewards
  choices :: "string list"

datatype sim_error = TypeError

section \<open>The simulator's steps\<close>

text \<open>
  One prerequisite of \<open>findAvailableQuests\<close>. \<open>flags[target] === value\<close> is strict:
  a flag equals a boolean value, and an absent flag equals an absent value.
\<close>

definition prerequisiteHolds ::
  "(string \<Rightarrow> rat option) \<Rightarrow> player_state \<Rightarrow> prerequisite \<Rightarrow> bool" where
  "prerequisiteHolds toNumber state prereq =
     (if prereq_type prereq = Some ''quest'' then
        (case quest_progress state (tpl (prereq_target prereq)) of
           None \<Rightarrow> False
         | Some e \<Rightarrow> status e = Completed)
      else if prereq_type prereq = Some ''stat'' then
        jsGe (stats state (tpl (prereq_target prereq)))
             (valueNumber toNumber (prereq_value prereq))
      else if prereq_type prereq = Some ''flag'' then
        (case flags state (tpl (prereq_target prereq)) of
           None \<Rightarrow> prereq_value prereq = None
         | Some b \<Rightarrow> prereq_value prereq = Some (VBool b))
      else if prereq_type prereq = Some ''reputation'' then
        jsGe (map_of (reputation state) (tpl (prereq_target prereq)))
             (valueNumber toNumber (prereq_value prereq))
      else True)"

text \<open>
  \<open>findAvailableQuests\<close>: the filter reads \<open>progress.status\<close> of every quest, which
  throws when the quest has no progress entry.
\<close>

fun findAvailableQuests ::
  "(string \<Rightarrow> rat option) \<Rightarrow> quest list \<Rightarrow> player_state \<Rightarrow> sim_error + quest list" where
  "findAvailableQuests toNumber [] state = Inr []"
| "findAvailableQuests toNumber (q # qs) state =
     (case quest_progress state (quest_id q) of
        None \<Rightarrow> Inl TypeError
      | Some e \<Rightarrow>
          (case findAvailableQuests toNumber qs state of
             Inl err \<Rightarrow> Inl err
           | Inr rest \<Rightarrow>
               if status e \<noteq> NotStarted then Inr rest
               else if list_all (prerequisiteHolds toNumber state) (optList (prerequisites q))
               then Inr (q # rest)
               else Inr rest))"

definition nthOpt :: "'a list \<Rightarrow> int \<Rightarrow> 'a option" where
  "nthOpt xs i = (if 0 \<le> i \<and> i < int (length xs) then Some (xs ! nat i) else None)"

definition preferType :: "string \<Rightarrow> quest list \<Rightarrow> quest option" where
  "preferType t qs =
     (case find (\<lambda>q. quest_type q = t) qs of
        Some q \<Rightarrow> Some q
      | None \<Rightarrow> (case qs of [] \<Rightarrow> None | q0 # rest \<Rightarrow> Some q0))"

text \<open>\<open>selectNextQuest\<close>; \<open>r\<close> is the value \<open>Math.random()\<close> returns in the last branch.\<close>

definition selectNextQuest :: "rat \<Rightarrow> quest list \<Rightarrow> string option \<Rightarrow> quest option" where
  "selectNextQuest r availableQuests playStyle =
     (if availableQuests = [] then None
      else if playStyle = Some ''aggressive'' then preferType ''combat'' availableQuests
      else if playStyle = Some ''diplomatic'' then preferType ''dialogue'' availableQuests
      else if playStyle = Some ''exploration'' then preferType ''exploration'' availableQuests
      else nthOpt availableQuests \<lfloor>r * of_nat (length availableQuests)\<rfloor>)"

definition generateQuestRewards :: "quest \<Rightarrow> bool \<Rightarrow> rewards" where
  "generateQuestRewards q ok =
     (if \<not> ok then \<lparr>experience = None, gold = None, items = None, reward_flags = None\<rparr>
      else if quest_type q = ''combat'' then
        \<lparr>experience = Some (difficulty q * 10 * (3 / 2)), gold = Some (difficulty q * 5),
         items = Some [''weapon_upgrade''], reward_flags = Some []\<rparr>
      else if quest_type q = ''dialogue'' then
        \<lparr>experience = Some (difficulty q * 10), gold = Some (difficulty q * 5 * (6 / 5)),
         items = Some [], reward_flags = Some [(''diplomatic_skill'', True)]\<rparr>
      else if quest_type q = ''exploration'' then
        \<lparr>experience = Some (difficulty q * 10 * (13 / 10)), gold = Some (difficulty q * 5),
         items = Some [''map_fragment''], reward_flags = Some []\<rparr>
      else
        \<lparr>experience = Some (difficulty q * 10), gold = Some (difficulty q * 5),
         items = Some [], reward_flags = Some []\<rparr>)"

definition generatePlayerChoices :: "quest \<Rightarrow> player_state \<Rightarrow> string list" where
  "generatePlayerChoices q state =
     (if quest_type q = ''combat'' then
        (if jsGt (stats state ''health'') (Some 50) then [''fight''] else [])
        @ (if jsGt (stats state ''level'') (Some 2) then [''defend''] else [])
        @ [''flee'']
      else if quest_type q = ''dialogue'' then
        [''agree'', ''disagree'']
        @ (if jsGt (stats state ''level'') (Some 3) then [''negotiate''] else [])
      else if quest_type q = ''exploration'' then
        [''explore'', ''search'']
        @ (if jsGt (stats state ''level'') (Some 1) then [''investigate''] else [])
      else [''proceed''])"

text \<open>
  \<open>simulateQuest\<close>; \<open>r\<close> is the value \<open>Math.random()\<close> returns. The parameters
  \<open>dialogues\<close> and \<open>characters\<close> of the source are not read.
\<close>

definition simulateQuest :: "rat \<Rightarrow> quest \<Rightarrow> player_state \<Rightarrow> quest_result" where
  "simulateQuest r q state =
     (let successRate = 7 / 10
            + (if quest_type q = ''combat'' \<and> jsGt (stats state ''health'') (Some 80)
               then 1 / 10 else 0)
            + (if quest_type q = ''dialogue'' \<and> jsGt (stats state ''level'') (Some 3)
               then 1 / 10 else 0);
          ok = (r < successRate)
      in \<lparr>completed = ok,
          duration = (case estimated_duration q of None \<Rightarrow> 300
                      | Some d \<Rightarrow> if d = 0 then 300 else d),
          result_rewards = generateQuestRewards q ok,
          choices = generatePlayerChoices q state\<rparr>)"

definition truthyNum :: "rat option \<Rightarrow> bool" where
  "truthyNum a = (case a of None \<Rightarrow> False | Some x \<Rightarrow> x \<noteq> 0)"

definition applyRewards :: "player_state \<Rightarrow> rewards \<Rightarrow> player_state" where
  "applyRewards state rw =
     (let s1 = (if truthyNum (experience rw)
                then (stats state)(''experience'' := jsAdd (stats state ''experience'') (experience rw))
                else stats state);
          s2 = (if truthyNum (gold rw) then s1(''gold'' := jsAdd (s1 ''gold'') (gold rw)) else s1)
      in state\<lparr>stats := s2,
               inventory := inventory state @ optList (items rw),
               flags := fold (\<lambda>kv m. m(fst kv \<mapsto> snd kv)) (optList (reward_flags rw)) (flags state)\<rparr>)"

definition levelUp :: "player_state \<Rightarrow> player_state" where
  "levelUp state =
     (let newLevel = jsAdd (jsFloor (jsDiv (stats state ''experience'') (Some 100))) (Some 1)
      in if jsGt newLevel (stats state ''level'') then
           state\<lparr>stats := (stats state)
             (''level'' := newLevel,
              ''health'' := jsMin (Some 100) (jsAdd (stats state ''health'') (Some 10)),
              ''mana'' := jsMin (Some 100) (jsAdd (stats state ''mana'') (Some 10)))\<rparr>
         else state)"

definition updateStateFromQuest :: "player_state \<Rightarrow> quest \<Rightarrow> quest_result \<Rightarrow> player_state" where
  "updateStateFromQuest state q result =
     levelUp
       (if completed result then
          applyRewards
            (state\<lparr>quest_progress := (quest_progress state)
               (quest_id q \<mapsto> \<lparr>status = Completed, progress = 100, objectives = Map.empty\<rparr>)\<rparr>)
            (result_rewards result)
        else
          state\<lparr>quest_progress := (quest_progress state)
            (quest_id q \<mapsto> \<lparr>status = Failed, progress = 0, objectives = Map.empty\<rparr>)\<rparr>)"

text \<open>
  The characters of \<open>calculateReputationChanges\<close> whose name occurs in the title or
  the description; \<open>description.toLowerCase()\<close> throws on a null description, and is
  reached when the title does not hold the name.
\<close>

fun involvedCharacters :: "quest \<Rightarrow> character list \<Rightarrow> sim_error + character list" where
  "involvedCharacters q [] = Inr []"
| "involvedCharacters q (c # cs) =
     (if jsIncludes (toLowerCase (title q)) (toLowerCase (char_name c)) then
        (case involvedCharacters q cs of Inl err \<Rightarrow> Inl err | Inr rest \<Rightarrow> Inr (c # rest))
      else
        (case description q of
           None \<Rightarrow> Inl TypeError
         | Some d \<Rightarrow>
             (case involvedCharacters q cs of
                Inl err \<Rightarrow> Inl err
              | Inr rest \<Rightarrow>
                  if jsIncludes (toLowerCase d) (toLowerCase (char_name c)) then Inr (c # rest)
                  else Inr rest)))"

definition characterFaction :: "character \<Rightarrow> string" where
  "characterFaction c = (if truthyStr (faction c) then tpl (faction c) else ''neutral'')"

definition characterChange :: "character \<Rightarrow> rat" where
  "characterChange c =
     (let multiplier =
            (if ''friendly'' \<in> set (optList (personality_traits c)) then (6 / 5 :: rat)
             else if ''hostile'' \<in> set (optList (personality_traits c)) then 4 / 5
             else 1)
      in of_int \<lfloor>5 * multiplier + 1 / 2\<rfloor>)"

definition calculateReputationChanges ::
  "quest \<Rightarrow> quest_result \<Rightarrow> character list \<Rightarrow> sim_error + (string \<times> rat) list" where
  "calculateReputationChanges q result characters =
     (if \<not> completed result then Inr []
      else (case involvedCharacters q characters of
              Inl err \<Rightarrow> Inl err
            | Inr involved \<Rightarrow>
                Inr (fold (\<lambda>c changes. AList.update (characterFaction c) (characterChange c) changes)
                       involved [])))"

definition calculateAlignmentChanges :: "quest \<Rightarrow> quest_result \<Rightarrow> alignment_change" where
  "calculateAlignmentChanges q result =
     (if \<not> completed result then \<lparr>good = 0, neutral = 0, evil = 0\<rparr>
      else if quest_type q = ''combat'' then
        (if ''defend'' \<in> set (choices result) \<or> ''protect'' \<in> set (choices result)
         then \<lparr>good = 5, neutral = 0, evil = 0\<rparr>
         else if ''attack'' \<in> set (choices result) \<or> ''kill'' \<in> set (choices result)
         then \<lparr>good = 0, neutral = 0, evil = 3\<rparr>
         else \<lparr>good = 0, neutral = 0, evil = 0\<rparr>)
      else if quest_type q = ''dialogue'' then
        (if ''help'' \<in> set (choices result) \<or> ''agree'' \<in> set (choices result)
         then \<lparr>good = 3, neutral = 2, evil = 0\<rparr>
         else \<lparr>good = 0, neutral = 2, evil = 0\<rparr>)
      else if quest_type q = ''exploration'' then \<lparr>good = 0, neutral = 1, evil = 0\<rparr>
      else \<lparr>good = 0, neutral = 1, evil = 0\<rparr>)"

text \<open>\<open>(reputation[faction] || 0) + change\<close>, clamped to the range from -100 to 100.\<close>

definition clampReputation :: "rat \<Rightarrow> rat" where
  "clampReputation x = max (- 100) (min 100 x)"

definition applyReputationChange :: "string \<times> rat \<Rightarrow> (string \<times> rat) list \<Rightarrow> (string \<times> rat) list" where
  "applyReputationChange fc rep =
     AList.update (fst fc)
       (clampReputation ((case map_of rep (fst fc) of None \<Rightarrow> 0 | Some v \<Rightarrow> v) + snd fc)) rep"

definition applyReputationChanges :: "player_state \<Rightarrow> (string \<times> rat) list \<Rightarrow> player_state" where
  "applyReputationChanges state changes =
     state\<lparr>reputation := fold applyReputationChange changes (reputation state)\<rparr>"

definition applyAlignmentChanges :: "player_state \<Rightarrow> alignment_change \<Rightarrow> player_state" where
  "applyAlignmentChanges state changes =
     (let a = alignment state;
          good1 = jsAdd (a ''good'') (Some (good changes));
          neutral1 = jsAdd (a ''neutral'') (Some (neutral changes));
          evil1 = jsAdd (a ''evil'') (Some (evil changes));
          total = jsAdd (jsAdd good1 neutral1) evil1
      in if jsGt total (Some 0) then
           (let good2 = jsRound (jsMul (jsDiv good1 total) (Some 100));
                neutral2 = jsRound (jsMul (jsDiv neutral1 total) (Some 100));
                evil2 = jsSub (jsSub (Some 100) good2) neutral2
            in state\<lparr>alignment := a(''good'' := good2, ''neutral'' := neutral2, ''evil'' := evil2)\<rparr>)
         else state\<lparr>alignment := a(''good'' := good1, ''neutral'' := neutral1, ''evil'' := evil1)\<rparr>)"

section \<open>The simulation loop\<close>

record loop_state =
  currentState :: player_state
  currentTime :: rat
  loop_events :: "simulation_event list"
  completedQuests :: "string list"
  failedQuests :: "string list"
  iteration :: nat

text \<open>\<open>(request.max_duration || 60) * 60\<close>: the budget in seconds.\<close>

definition timeBudget :: "simulation_request \<Rightarrow> rat" where
  "timeBudget request =
     (case max_duration request of None \<Rightarrow> 60 | Some m \<Rightarrow> if m = 0 then 60 else m) * 60"

text \<open>\<open>quest_progress[selectedQuest.id].status = 'in_progress'\<close>, then \<open>current_quest\<close>.\<close>

definition startQuest :: "player_state \<Rightarrow> quest \<Rightarrow> sim_error + player_state" where
  "startQuest state q =
     (case quest_progress state (quest_id q) of
        None \<Rightarrow> Inl TypeError
      | Some e \<Rightarrow>
          Inr (state\<lparr>quest_progress := (quest_progress state)(quest_id q \<mapsto> e\<lparr>status := InProgress\<rparr>),
                    current_quest := Some (quest_id q)\<rparr>))"

text \<open>
  The body of the \<open>while\<close> loop. \<open>draws i\<close> holds the two values \<open>Math.random()\<close>
  returns in iteration \<open>i\<close>: the one \<open>selectNextQuest\<close> reads and the one
  \<open>simulateQuest\<close> reads. The result \<open>None\<close> is a \<open>break\<close>.
\<close>

definition simulationStep ::
  "(string \<Rightarrow> rat option) \<Rightarrow> (nat \<Rightarrow> rat \<times> rat) \<Rightarrow> quest list \<Rightarrow> character list
     \<Rightarrow> simulation_request \<Rightarrow> loop_state \<Rightarrow> sim_error + loop_state option" where
  "simulationStep toNumber draws quests characters request ls =
     (case findAvailableQuests toNumber quests (currentState ls) of
        Inl err \<Rightarrow> Inl err
      | Inr availableQuests \<Rightarrow>
          if availableQuests = [] then Inr None
          else
            (case selectNextQuest (fst (draws (iteration ls))) availableQuests (play_style request) of
               None \<Rightarrow> Inr None
             | Some selectedQuest \<Rightarrow>
                 (case startQuest (currentState ls) selectedQuest of
                    Inl err \<Rightarrow> Inl err
                  | Inr state1 \<Rightarrow>
                      (let events1 = addEvent (loop_events ls) quest_start
                             (StartedQuest (title selectedQuest))
                             (QuestRef (quest_id selectedQuest) (title selectedQuest)) Info;
                           questResult = simulateQuest (snd (draws (iteration ls))) selectedQuest state1;
                           state2 = updateStateFromQuest state1 selectedQuest questResult;
                           events2 =
                             (if completed questResult then
                                addEvent events1 quest_complete (CompletedQuest (title selectedQuest))
                                  (QuestRewardData (quest_id selectedQuest) (title selectedQuest)
                                     (result_rewards questResult)) Success
                              else
                                addEvent events1 quest_complete (FailedQuest (title selectedQuest))
                                  (QuestRef (quest_id selectedQuest) (title selectedQuest)) EventError)
                       in (case calculateReputationChanges selectedQuest questResult characters of
                             Inl err \<Rightarrow> Inl err
                           | Inr reputationChanges \<Rightarrow>
                               (let alignmentChanges = calculateAlignmentChanges selectedQuest questResult;
                                    state3 = applyReputationChanges state2 reputationChanges;
                                    state4 = applyAlignmentChanges state3 alignmentChanges;
                                    events3 =
                                      (if reputationChanges \<noteq> [] then
                                         addEvent events2 reputation_change ReputationChanged
                                           (ReputationData reputationChanges) Info
                                       else events2);
                                    events4 =
                                      (if good alignmentChanges \<noteq> 0 \<or> neutral alignmentChanges \<noteq> 0
                                          \<or> evil alignmentChanges \<noteq> 0 then
                                         addEvent events3 alignment_change_event AlignmentChanged
                                           (AlignmentData alignmentChanges) Info
                                       else events3)
                                in Inr (Some
                                     \<lparr>currentState = state4,
                                      currentTime = currentTime ls + duration questResult,
                                      loop_events = events4,
                                      completedQuests =
                                        (if completed questResult
                                         then completedQuests ls @ [quest_id selectedQuest]
                                         else completedQuests ls),
                                      failedQuests =
                                        (if completed questResult then failedQuests ls
                                         else failedQuests ls @ [quest_id selectedQuest]),
                                      iteration = iteration ls + 1\<rparr>)))))))"

definition notStarted :: "player_state \<Rightarrow> quest \<Rightarrow> bool" where
  "notStarted state q =
     (case quest_progress state (quest_id q) of None \<Rightarrow> False | Some e \<Rightarrow> status e = NotStarted)"

function simulationLoop ::
  "(string \<Rightarrow> rat option) \<Rightarrow> (nat \<Rightarrow> rat \<times> rat) \<Rightarrow> quest list \<Rightarrow> character list
     \<Rightarrow> simulation_request \<Rightarrow> loop_state \<Rightarrow> sim_error + loop_state" where
  "simulationLoop toNumber draws quests characters request ls =
     (if currentTime ls < timeBudget request then
        (case simulationStep toNumber draws quests characters request ls of
           Inl err \<Rightarrow> Inl err
         | Inr None \<Rightarrow> Inr ls
         | Inr (Some ls') \<Rightarrow> simulationLoop toNumber draws quests characters request ls')
      else Inr ls)"
  by pat_completeness auto

text \<open>
  Every iteration that does not break moves a quest of the list out of \<open>NotStarted\<close>,
  so the loop ends.
\<close>

lemma findAvailableQuests_sound:
  "findAvailableQuests toNumber qs state = Inr av \<Longrightarrow> q \<in> set av
     \<Longrightarrow> q \<in> set qs \<and> notStarted state q"
proof (induction qs arbitrary: av)
  case Nil
  then show ?case by simp
next
  case (Cons a qs)
  then show ?case
    by (auto simp: notStarted_def split: option.splits sum.splits if_splits)
qed

lemma preferType_mem: "preferType t qs = Some q \<Longrightarrow> q \<in> set qs"
  by (auto simp: preferType_def find_Some_iff split: option.splits list.splits)

lemma nthOpt_mem: "nthOpt xs i = Some x \<Longrightarrow> x \<in> set xs"
proof -
  assume a: "nthOpt xs i = Some x"
  then have "0 \<le> i" "i < int (length xs)" "x = xs ! nat i"
    by (auto simp: nthOpt_def split: if_splits)
  then have "nat i < length xs" by linarith
  with \<open>x = xs ! nat i\<close> show ?thesis by simp
qed

lemma selectNextQuest_mem: "selectNextQuest r av style = Some q \<Longrightarrow> q \<in> set av"
  by (auto simp: selectNextQuest_def dest: preferType_mem nthOpt_mem split: if_splits)

lemma quest_progress_applyRewards [simp]:
  "quest_progress (applyRewards st rw) = quest_progress st"
  by (simp add: applyRewards_def Let_def)

lemma quest_progress_levelUp [simp]: "quest_progress (levelUp st) = quest_progress st"
  by (simp add: levelUp_def Let_def)

lemma quest_progress_applyReputationChanges [simp]:
  "quest_progress (applyReputationChanges st ch) = quest_progress st"
  by (simp add: applyReputationChanges_def)

lemma quest_progress_applyAlignmentChanges [simp]:
  "quest_progress (applyAlignmentChanges st ch) = quest_progress st"
  by (simp add: applyAlignmentChanges_def Let_def)

lemma quest_progress_updateStateFromQuest:
  "quest_progress (updateStateFromQuest st q res) =
     (quest_progress st)(quest_id q \<mapsto>
        (if completed res then \<lparr>status = Completed, progress = 100, objectives = Map.empty\<rparr>
         else \<lparr>status = Failed, progress = 0, objectives = Map.empty\<rparr>))"
  by (simp add: updateStateFromQuest_def)

lemma simulationStep_progress:
  assumes "simulationStep toNumber draws quests characters request ls = Inr (Some ls')"
  shows "\<exists>q e. q \<in> set quests \<and> notStarted (currentState ls) q
           \<and> status e \<noteq> NotStarted
           \<and> quest_progress (currentState ls') = (quest_progress (currentState ls))(quest_id q \<mapsto> e)"
proof -
  from assms obtain av where av: "findAvailableQuests toNumber quests (currentState ls) = Inr av"
    by (auto simp: simulationStep_def split: sum.splits)
  from assms av obtain q where
    q: "selectNextQuest (fst (draws (iteration ls))) av (play_style request) = Some q"
    by (auto simp: simulationStep_def split: sum.splits if_splits option.splits)
  from assms av q obtain st1 where st1: "startQuest (currentState ls) q = Inr st1"
    by (auto simp: simulationStep_def split: sum.splits if_splits option.splits)
  from assms av q st1 obtain rc where
    rc: "calculateReputationChanges q (simulateQuest (snd (draws (iteration ls))) q st1) characters = Inr rc"
    by (auto simp: simulationStep_def Let_def split: sum.splits if_splits option.splits)
  from q have "q \<in> set av" by (rule selectNextQuest_mem)
  with av have mem: "q \<in> set quests" "notStarted (currentState ls) q"
    using findAvailableQuests_sound by blast+
  from st1 have qp1: "\<exists>e. quest_progress st1 = (quest_progress (currentState ls))(quest_id q \<mapsto> e)"
    by (auto simp: startQuest_def split: option.splits)
  from assms av q st1 rc have
    "currentState ls' = applyAlignmentChanges (applyReputationChanges
        (updateStateFromQuest st1 q (simulateQuest (snd (draws (iteration ls))) q st1)) rc)
        (calculateAlignmentChanges q (simulateQuest (snd (draws (iteration ls))) q st1))"
    by (auto simp: simulationStep_def Let_def split: if_splits)
  then have "quest_progress (currentState ls') =
      (quest_progress st1)(quest_id q \<mapsto>
        (if completed (simulateQuest (snd (draws (iteration ls))) q st1)
         then \<lparr>status = Completed, progress = 100, objectives = Map.empty\<rparr>
         else \<lparr>status = Failed, progress = 0, objectives = Map.empty\<rparr>))"
    by (simp add: quest_progress_updateStateFromQuest)
  with qp1 mem show ?thesis
    by (intro exI [of _ q]) (auto intro!: exI)
qed

lemma length_filter_mono:
  "(\<And>x. x \<in> set xs \<Longrightarrow> Q x \<Longrightarrow> P x) \<Longrightarrow> length (filter Q xs) \<le> length (filter P xs)"
  by (induction xs) (auto simp: le_Suc_eq)

lemma length_filter_strict:
  assumes "\<And>x. x \<in> set xs \<Longrightarrow> Q x \<Longrightarrow> P x" and "a \<in> set xs" and "P a" and "\<not> Q a"
  shows "length (filter Q xs) < length (filter P xs)"
  using assms
proof (induction xs)
  case Nil
  then show ?case by simp
next
  case (Cons x xs)
  have le: "length (filter Q xs) \<le> length (filter P xs)"
    using Cons.prems(1) by (intro length_filter_mono) auto
  show ?case
  proof (cases "a = x")
    case True
    with Cons.prems le show ?thesis by auto
  next
    case False
    with Cons.prems have "a \<in> set xs" by simp
    with Cons have "length (filter Q xs) < length (filter P xs)" by auto
    with Cons.prems(1) [of x] show ?thesis by auto
  qed
qed

lemma simulationStep_decreases:
  assumes "simulationStep toNumber draws quests characters request ls = Inr (Some ls')"
  shows "length (filter (notStarted (currentState ls')) quests)
           < length (filter (notStarted (currentState ls)) quests)"
proof -
  from simulationStep_progress [OF assms] obtain q e where
    q: "q \<in> set quests" "notStarted (currentState ls) q" "status e \<noteq> NotStarted"
       "quest_progress (currentState ls') = (quest_progress (currentState ls))(quest_id q \<mapsto> e)"
    by blast
  show ?thesis
  proof (rule length_filter_strict [where a = q])
    fix x assume "x \<in> set quests" "notStarted (currentState ls') x"
    with q show "notStarted (currentState ls) x"
      by (auto simp: notStarted_def split: if_splits option.splits)
  next
    show "q \<in> set quests" by (rule q(1))
    show "notStarted (currentState ls) q" by (rule q(2))
    from q show "\<not> notStarted (currentState ls') q" by (simp add: notStarted_def)
  qed
qed

termination simulationLoop
  apply (relation "measure (\<lambda>(toNumber, draws, quests, characters, request, ls).
            length (filter (notStarted (currentState ls)) quests))")
  subgoal by simp
  subgoal by (simp add: simulationStep_decreases)
  done

record alignment_delta =
  delta_good :: "rat option"
  delta_neutral :: "rat option"
  delta_evil :: "rat option"

record simulation_result =
  initial_state :: player_state
  final_state :: player_state
  events :: "simulation_event list"
  completed_quests :: "string list"
  failed_quests :: "string list"
  total_experience_gained :: "rat option"
  reputation_changes :: "(string \<times> rat option) list"
  alignment_changes :: alignment_delta

definition initQuestProgress :: "quest list \<Rightarrow> player_state \<Rightarrow> player_state" where
  "initQuestProgress quests state =
     state\<lparr>quest_progress :=
       fold (\<lambda>q qp. qp(quest_id q \<mapsto> \<lparr>status = NotStarted, progress = 0, objectives = Map.empty\<rparr>))
         quests (quest_progress state)\<rparr>"

text \<open>The loop over \<open>Object.keys(currentState.reputation)\<close> after the simulation.\<close>

definition reputationDelta ::
  "(string \<times> rat) list \<Rightarrow> (string \<times> rat) list \<Rightarrow> (string \<times> rat option) list" where
  "reputationDelta cur init =
     fold (\<lambda>f changes.
             if jsSub (map_of cur f) (map_of init f) \<noteq> Some 0
             then AList.update f (jsSub (map_of cur f) (map_of init f)) changes
             else changes)
       (map fst cur) []"

text \<open>
  \<open>runSimulation\<close>. The source copies a state with a spread (\<open>{ ...state }\<close>) at the
  start and in every transition function; a spread copies the top-level fields only, so
  the objects \<open>stats\<close>, \<open>reputation\<close>, \<open>alignment\<close>, \<open>inventory\<close>, \<open>flags\<close> and
  \<open>quest_progress\<close> of \<open>initialState\<close> are the very objects the loop writes to. When
  the loop ends, \<open>initialState\<close> holds their final contents, and differs from
  \<open>currentState\<close> in \<open>current_quest\<close> alone, the one top-level field the loop assigns:
  this is \<open>initialAtEnd\<close>, the value the result returns as \<open>initial_state\<close> and the
  value the differences are computed from. The wall-clock fields of the result
  (\<open>duration\<close>, \<open>created_at\<close>, \<open>metadata.notes\<close>) and the ids copied from the request are
  left out.
\<close>

definition runSimulation ::
  "(string \<Rightarrow> rat option) \<Rightarrow> (nat \<Rightarrow> rat \<times> rat) \<Rightarrow> player_state \<Rightarrow> quest list
     \<Rightarrow> character list \<Rightarrow> simulation_request \<Rightarrow> sim_error + simulation_result" where
  "runSimulation toNumber draws initialState quests characters request =
     (case simulationLoop toNumber draws quests characters request
             \<lparr>currentState = initQuestProgress quests initialState, currentTime = 0,
              loop_events = [], completedQuests = [], failedQuests = [], iteration = 0\<rparr> of
        Inl err \<Rightarrow> Inl err
      | Inr ls \<Rightarrow>
          (let cur = currentState ls;
               initialAtEnd = cur\<lparr>current_quest := current_quest initialState\<rparr>
           in Inr \<lparr>initial_state = initialAtEnd,
                   final_state = cur,
                   events = loop_events ls,
                   completed_quests = completedQuests ls,
                   failed_quests = failedQuests ls,
                   total_experience_gained =
                     jsSub (stats cur ''experience'') (stats initialAtEnd ''experience''),
                   reputation_changes = reputationDelta (reputation cur) (reputation initialAtEnd),
                   alignment_changes =
                     \<lparr>delta_good = jsSub (alignment cur ''good'') (alignment initialAtEnd ''good''),
                      delta_neutral =
                        jsSub (alignment cur ''neutral'') (alignment initialAtEnd ''neutral''),
                      delta_evil = jsSub (alignment cur ''evil'') (alignment initialAtEnd ''evil'')\<rparr>\<rparr>))"

text \<open>
  \<open>createSimulation\<close> between the repository reads and the save: \<open>quests\<close> and
  \<open>characters\<close> are what the repositories return.
\<close>

definition createSimulation ::
  "(string \<Rightarrow> rat option) \<Rightarrow> (nat \<Rightarrow> rat \<times> rat) \<Rightarrow> quest list \<Rightarrow> character list
     \<Rightarrow> simulation_request \<Rightarrow> sim_error + simulation_result" where
  "createSimulation toNumber draws quests characters request =
     runSimulation toNumber draws (initializePlayerState (req_initial_state request))
       quests characters request"

section \<open>Example inputs\<close>

definition exampleQuest :: quest where
  "exampleQuest =
     \<lparr>quest_id = ''q1'', title = ''Rescue'', description = Some ''Find the scout'',
      storyArcId = None, prerequisites = None,
      outcomes = Some [\<lparr>outcome_description = Some ''Saved'', probability = Some 60,
                        nextQuestId = None, outcome_conditions = None\<rparr>],
      quest_type = ''combat'', difficulty = 2, estimated_duration = None\<rparr>"

definition exampleRepository :: "string \<Rightarrow> quest option" where
  "exampleRepository k = (if k = ''q1'' then Some exampleQuest else None)"

definition exampleQuestResult :: validation_result where
  "exampleQuestResult =
     \<lparr>isValid = True, errors = [],
      warnings = [\<lparr>etype = broken_chain, nodeId = Some ''q1'',
                   message = ProbabilitiesMustSum 60, severity = Warning,
                   suggestions = None\<rparr>],
      exportReady = True,
      summary = \<lparr>totalNodes = 1, totalEdges = 1, orphanNodes = 0, unreachableNodes = 0,
                 brokenChains = 0, circularDependencies = 0\<rparr>\<rparr>"

definition zeroBudgetRequest :: simulation_request where
  "zeroBudgetRequest =
     \<lparr>project_id = ''p1'', story_arc_id = ''a1'', req_initial_state = None, player_name = None,
      req_difficulty = None, play_style = None, max_duration = Some 0, random_seed = None\<rparr>"

definition noNumber :: "string \<Rightarrow> rat option" where
  "noNumber s = None"

definition zeroDraws :: "nat \<Rightarrow> rat \<times> rat" where
  "zeroDraws i = (0, 0)"





definition zeroBudgetStart :: loop_state where
  "zeroBudgetStart =
     \<lparr>currentState = initQuestProgress [exampleQuest] defaultState, currentTime = 0,
      loop_events = [], completedQuests = [], failedQuests = [], iteration = 0\<rparr>"

definition zeroBudgetEnd :: loop_state where
  "zeroBudgetEnd =
     \<lparr>currentState =
        \<lparr>stats = [''health'' \<mapsto> 100, ''mana'' \<mapsto> 100, ''level'' \<mapsto> 1, ''experience'' \<mapsto> 30,
                  ''gold'' \<mapsto> 60],
         reputation = [(''neutral'', 0), (''townsfolk'', 0), (''merchants'', 0), (''guards'', 0)],
         alignment = [''good'' \<mapsto> 0, ''neutral'' \<mapsto> 100, ''evil'' \<mapsto> 0],
         inventory = [''weapon_upgrade''],
         flags = Map.empty,
         quest_progress =
           [''q1'' \<mapsto> \<lparr>status = Completed, progress = 100, objectives = Map.empty\<rparr>],
         current_location = ''town_square'',
         current_quest = Some ''q1'',
         current_dialogue = None\<rparr>,
      currentTime = 300,
      loop_events =
        [\<lparr>timestamp = 0, event_kind = quest_start, event_text = StartedQuest ''Rescue'',
          event_payload = QuestRef ''q1'' ''Rescue'', event_severity = Info\<rparr>,
         \<lparr>timestamp = 30, event_kind = quest_complete, event_text = CompletedQuest ''Rescue'',
          event_payload = QuestRewardData ''q1'' ''Rescue''
            \<lparr>experience = Some 30, gold = Some 10, items = Some [''weapon_upgrade''],
             reward_flags = Some []\<rparr>,
          event_severity = Success\<rparr>],
      completedQuests = [''q1''], failedQuests = [], iteration = 1\<rparr>"

definition healthOnlyState :: partial_player_state where
  "healthOnlyState =
     \<lparr>p_stats = Some [''health'' \<mapsto> 80], p_reputation = None, p_alignment = None,
      p_inventory = None, p_flags = None, p_quest_progress = None, p_current_location = None,
      p_current_quest = None, p_current_dialogue = None\<rparr>"

section \<open>Alignment and reputation measures\<close>








section \<open>Example projects\<close>

definition loneArc :: story_arc where
  "loneArc = \<lparr>arc_id = ''a1'', arc_title = ''Prologue''\<rparr>"

definition questConditions :: "graph \<Rightarrow> condition list" where
  "questConditions g =
     concat (map (\<lambda>kn. if ntype (snd kn) = QuestNode
                       then prerequisiteConditions (snd kn) @ outcomeConditions (snd kn)
                       else []) (nodes g))"

definition reputationCondition :: condition where
  "reputationCondition =
     \<lparr>ctype = Some ''reputation'', operator = Some ''gte'', cvalue = Some (VNum 10),
      ctarget = Some ''guards''\<rparr>"

definition levelCondition :: condition where
  "levelCondition =
     \<lparr>ctype = Some ''stat'', operator = Some ''gte'', cvalue = Some (VNum 3),
      ctarget = Some ''level''\<rparr>"

definition unsetCondition :: condition where
  "unsetCondition =
     \<lparr>ctype = Some ''flag'', operator = Some ''eq'', cvalue = None, ctarget = Some ''met_king''\<rparr>"

definition guardedQuest :: quest where
  "guardedQuest =
     \<lparr>quest_id = ''q3'', title = ''Audience'', description = Some ''Meet the captain'',
      storyArcId = None,
      prerequisites = Some [\<lparr>prereq_id = Some ''q0'',
                             prereq_conditions = Some [reputationCondition, levelCondition],
                             prereq_type = None, prereq_target = None, prereq_value = None\<rparr>],
      outcomes = None, quest_type = ''dialogue'', difficulty = 1, estimated_duration = None\<rparr>"





section \<open>The export gate\<close>

lemma outcomeErrors_no_warning: "filter isWarning (outcomeErrors q i ocs) = []"
  by (induction ocs arbitrary: i) (simp_all add: isWarning_def questFinding_def)

lemma validateQuestOutcomes_no_warning: "filter isWarning (validateQuestOutcomes q) = []"
  by (simp add: validateQuestOutcomes_def outcomeErrors_no_warning)

lemma validateQuestPrerequisites_no_warning:
  "filter isWarning (validateQuestPrerequisites q) = []"
  by (simp add: validateQuestPrerequisites_def isWarning_def prerequisiteIdError_def
      filter_empty_conv)

lemma validateQuestStructure_warnings:
  "length (filter isWarning (validateQuestStructure q)) \<le> 1"
  by (simp add: validateQuestStructure_def isWarning_def questFinding_def)

lemma validateQuest_warnings:
  assumes "validateQuest repo k = Inr r"
  shows "length (warnings r) \<le> 1"
proof -
  from assms obtain q where q: "repo k = Some q"
    by (auto simp: validateQuest_def split: option.splits)
  with assms have "warnings r = filter isWarning (validateQuestStructure q)
      @ filter isWarning (validateQuestPrerequisites q) @ filter isWarning (validateQuestOutcomes q)"
    by (auto simp: validateQuest_def Let_def)
  then show ?thesis
    using validateQuestStructure_warnings [of q]
    by (simp add: validateQuestPrerequisites_no_warning validateQuestOutcomes_no_warning)
qed

text \<open>
  C2. Whole-graph validation sets \<open>exportReady\<close> to "no errors and fewer than five
  warnings". Quest-local validation sets it to "no errors" alone; since quest-local
  validation produces at most one warning (the probability sum), the two tests agree on
  every result it returns.
\<close>

theorem exportReady_policy:
  "(exportReady (validateStoryGraph storyArcs quests dialogues)
      \<longleftrightarrow> errors (validateStoryGraph storyArcs quests dialogues) = []
          \<and> length (warnings (validateStoryGraph storyArcs quests dialogues)) < 5)
   \<and> (\<forall>r. validateQuest questRepository k = Inr r
          \<longrightarrow> (exportReady r \<longleftrightarrow> errors r = [] \<and> length (warnings r) < 5))"
proof (intro conjI allI impI)
  show "exportReady (validateStoryGraph storyArcs quests dialogues)
      \<longleftrightarrow> errors (validateStoryGraph storyArcs quests dialogues) = []
          \<and> length (warnings (validateStoryGraph storyArcs quests dialogues)) < 5"
    by (simp add: validateStoryGraph_def Let_def)
next
  fix r assume r: "validateQuest questRepository k = Inr r"
  then have "exportReady r \<longleftrightarrow> errors r = []"
    by (auto simp: validateQuest_def Let_def split: option.splits)
  moreover from r have "length (warnings r) \<le> 1" by (rule validateQuest_warnings)
  ultimately show "exportReady r \<longleftrightarrow> errors r = [] \<and> length (warnings r) < 5" by simp
qed

lemma validateQuest_example:
  "validateQuest exampleRepository ''q1'' = Inr exampleQuestResult"
  by (simp add: validateQuest_def exampleRepository_def exampleQuest_def exampleQuestResult_def
      validateQuestStructure_def validateQuestPrerequisites_def validateQuestOutcomes_def
      questFinding_def totalProbability_def probabilityOrZero_def probabilityOutOfRange_def
      missingText_def blank_def isSpace_def optList_def isError_def isWarning_def)

theorem exportReady_policy_witness:
  "validateQuest exampleRepository ''q1'' = Inr exampleQuestResult
   \<and> exportReady exampleQuestResult
   \<and> errors exampleQuestResult = []
   \<and> length (warnings exampleQuestResult) < 5"
proof -
  from exportReady_policy [of "[]" "[]" "[]" exampleRepository "''q1''"] validateQuest_example
  have "exportReady exampleQuestResult
      \<longleftrightarrow> errors exampleQuestResult = [] \<and> length (warnings exampleQuestResult) < 5"
    by blast
  moreover have "errors exampleQuestResult = []" "length (warnings exampleQuestResult) < 5"
    by (simp_all add: exampleQuestResult_def)
  ultimately show ?thesis using validateQuest_example by simp
qed

section \<open>Evaluating the simulator\<close>

lemma rat_floor_one_divide_numeral [simp]:
  "\<lfloor>1 / (numeral b :: rat)\<rfloor> = 1 div numeral b"
  using floor_divide_of_int_eq [of 1 "numeral b", where ?'a = rat] by simp

lemma rat_floor_divide_numeral [simp]:
  "\<lfloor>numeral a / (numeral b :: rat)\<rfloor> = numeral a div numeral b"
  using floor_divide_of_int_eq [of "numeral a" "numeral b", where ?'a = rat] by simp

lemma rat_floor_minus_divide_numeral [simp]:
  "\<lfloor>- (numeral a / (numeral b :: rat))\<rfloor> = - numeral a div numeral b"
  using floor_divide_of_int_eq [of "- numeral a" "numeral b", where ?'a = rat] by simp

lemmas step_defs = simulationStep_def notStarted_def optList_def selectNextQuest_def nthOpt_def
     startQuest_def simulateQuest_def jsGt_def generateQuestRewards_def generatePlayerChoices_def
     updateStateFromQuest_def applyRewards_def truthyNum_def levelUp_def jsAdd_def jsFloor_def
     jsDiv_def jsMin_def calculateReputationChanges_def calculateAlignmentChanges_def
     applyReputationChanges_def applyAlignmentChanges_def addEvent_def Let_def jsRound_def
     jsMul_def jsSub_def initQuestProgress_def defaultState_def

lemma zeroBudget_budget: "timeBudget zeroBudgetRequest = 3600"
  by (simp add: timeBudget_def zeroBudgetRequest_def)

lemma zeroBudget_step1:
  "simulationStep noNumber zeroDraws [exampleQuest] [] zeroBudgetRequest zeroBudgetStart
     = Inr (Some zeroBudgetEnd)"
  by (simp add: step_defs zeroBudgetStart_def zeroBudgetEnd_def zeroBudgetRequest_def
      exampleQuest_def zeroDraws_def)

lemma zeroBudget_step2:
  "simulationStep noNumber zeroDraws [exampleQuest] [] zeroBudgetRequest zeroBudgetEnd = Inr None"
  by (simp add: simulationStep_def zeroBudgetEnd_def exampleQuest_def)

lemma zeroBudget_time: "currentTime zeroBudgetStart = 0" "currentTime zeroBudgetEnd = 300"
  by (simp_all add: zeroBudgetStart_def zeroBudgetEnd_def)

lemma zeroBudget_loop:
  "simulationLoop noNumber zeroDraws [exampleQuest] [] zeroBudgetRequest zeroBudgetStart
     = Inr zeroBudgetEnd"
  by (simp add: zeroBudget_budget zeroBudget_step1 zeroBudget_step2 zeroBudget_time)

section \<open>The time budget\<close>

text \<open>
  C1. A request with \<open>max_duration = 0\<close> should run no iteration. The budget is read
  as \<open>(request.max_duration || 60) * 60\<close>, and \<open>0 || 60\<close> is 60: the loop runs with
  a budget of 3600 seconds. With one quest that has no prerequisite the run starts and
  resolves that quest, logs two events, and returns a final state whose \<open>current_quest\<close>
  differs from the initial state's.
\<close>

theorem zero_budget_runs:
  "max_duration zeroBudgetRequest = Some 0
   \<and> (case createSimulation noNumber zeroDraws [exampleQuest] [] zeroBudgetRequest of
         Inl err \<Rightarrow> False
       | Inr r \<Rightarrow>
           map event_kind (events r) = [quest_start, quest_complete]
           \<and> completed_quests r = [''q1'']
           \<and> current_quest (final_state r) = Some ''q1''
           \<and> current_quest (initial_state r) = None)"
  using zeroBudget_loop
  by (simp add: createSimulation_def runSimulation_def initializePlayerState_def
      zeroBudgetRequest_def zeroBudgetStart_def zeroBudgetEnd_def Let_def defaultState_def
      del: simulationLoop.simps)


section \<open>Initial player state\<close>

text \<open>
  C10. \<open>initializePlayerState\<close> merges the overrides at the top level only. A supplied
  \<open>stats\<close>, \<open>reputation\<close>, \<open>alignment\<close> or \<open>flags\<close> object replaces the default
  object whole, so a field it omits is absent from the result; a top-level field that
  is not supplied keeps its default.
\<close>

theorem initializePlayerState_top_level_merge:
  "(p_stats p = Some s \<longrightarrow>
      stats (initializePlayerState (Some p)) = s
      \<and> (\<forall>k. s k = None \<longrightarrow> stats (initializePlayerState (Some p)) k = None))
   \<and> (p_reputation p = Some r \<longrightarrow>
      reputation (initializePlayerState (Some p)) = r
      \<and> (\<forall>k. map_of r k = None \<longrightarrow> map_of (reputation (initializePlayerState (Some p))) k = None))
   \<and> (p_alignment p = Some a \<longrightarrow>
      alignment (initializePlayerState (Some p)) = a
      \<and> (\<forall>k. a k = None \<longrightarrow> alignment (initializePlayerState (Some p)) k = None))
   \<and> (p_flags p = Some f \<longrightarrow>
      flags (initializePlayerState (Some p)) = f
      \<and> (\<forall>k. f k = None \<longrightarrow> flags (initializePlayerState (Some p)) k = None))
   \<and> (p_stats p = None \<longrightarrow> stats (initializePlayerState (Some p)) = stats defaultState)
   \<and> (p_reputation p = None \<longrightarrow>
      reputation (initializePlayerState (Some p)) = reputation defaultState)
   \<and> (p_alignment p = None \<longrightarrow>
      alignment (initializePlayerState (Some p)) = alignment defaultState)
   \<and> (p_inventory p = None \<longrightarrow>
      inventory (initializePlayerState (Some p)) = inventory defaultState)
   \<and> (p_flags p = None \<longrightarrow> flags (initializePlayerState (Some p)) = flags defaultState)
   \<and> (p_quest_progress p = None \<longrightarrow>
      quest_progress (initializePlayerState (Some p)) = quest_progress defaultState)
   \<and> (p_current_location p = None \<longrightarrow>
      current_location (initializePlayerState (Some p)) = current_location defaultState)
   \<and> (p_current_quest p = None \<longrightarrow>
      current_quest (initializePlayerState (Some p)) = current_quest defaultState)
   \<and> (p_current_dialogue p = None \<longrightarrow>
      current_dialogue (initializePlayerState (Some p)) = current_dialogue defaultState)"
  by (simp add: initializePlayerState_def orDefault_def)

theorem initializePlayerState_top_level_merge_witness:
  "p_stats healthOnlyState = Some [''health'' \<mapsto> 80]
   \<and> stats (initializePlayerState (Some healthOnlyState)) ''health'' = Some 80
   \<and> stats (initializePlayerState (Some healthOnlyState)) ''mana'' = None
   \<and> stats defaultState ''mana'' = Some 100
   \<and> p_reputation healthOnlyState = None
   \<and> reputation (initializePlayerState (Some healthOnlyState)) = reputation defaultState"
proof -
  have s: "p_stats healthOnlyState = Some [''health'' \<mapsto> 80]"
    and r: "p_reputation healthOnlyState = None"
    by (simp_all add: healthOnlyState_def)
  from initializePlayerState_top_level_merge [of healthOnlyState "[''health'' \<mapsto> 80]"] s r
  have "stats (initializePlayerState (Some healthOnlyState)) = [''health'' \<mapsto> 80]"
    and "reputation (initializePlayerState (Some healthOnlyState)) = reputation defaultState"
    by blast+
  then show ?thesis using s r by (simp add: defaultState_def)
qed

section \<open>One step of the simulation\<close>




lemma alignment_updateStateFromQuest [simp]:
  "alignment (updateStateFromQuest st q res) = alignment st"
  by (simp add: updateStateFromQuest_def levelUp_def applyRewards_def Let_def)

lemma reputation_updateStateFromQuest [simp]:
  "reputation (updateStateFromQuest st q res) = reputation st"
  by (simp add: updateStateFromQuest_def levelUp_def applyRewards_def Let_def)

lemma alignment_applyReputationChanges [simp]:
  "alignment (applyReputationChanges st rc) = alignment st"
  by (simp add: applyReputationChanges_def)

lemma reputation_applyAlignmentChanges [simp]:
  "reputation (applyAlignmentChanges st ch) = reputation st"
  by (simp add: applyAlignmentChanges_def Let_def)







section \<open>Alignment\<close>









section \<open>Reputation\<close>











section \<open>What the passes of whole-graph validation return\<close>

lemmas graph_defs = buildGraph_def addArcNode_def addQuestNode_def addDialogueNode_def
  addQuestEdges_def addArcEdge_def addPrereqEdge_def addOutcomeEdge_def addDialogueEdge_def
  addEdgeToNodes_def edgeId_def tpl_def optList_def

lemmas pass_defs = detectOrphanNodes_def detectUnreachableNodes_def reachedFromStart_def
  startNodes_def detectBrokenChains_def declaredPrerequisites_def declaredOutcomes_def
  detectCircularDependencies_def validatePrerequisites_def hasNode_def validateConditions_def
  prerequisiteConditions_def outcomeConditions_def generateSummary_def isError_def isWarning_def
  orphanError_def unreachableError_def brokenChainError_def circularError_def
  missingPrerequisiteError_def prerequisiteConditionError_def outcomeConditionError_def

lemma loneArc_graph:
  "buildGraph [loneArc] [] [] =
     \<lparr>nodes = [(''a1'', \<lparr>node_id = ''a1'', ntype = StoryArcNode, label = ''Prologue'',
                          ndata = ArcData loneArc, incoming = [], outgoing = []\<rparr>)],
      edges = []\<rparr>"
  by (simp add: graph_defs loneArc_def)

lemma circularLoop_kind:
  "e \<in> set (circularLoop ns kns st) \<Longrightarrow> etype e = circular_dependency \<and> severity e = Error"
proof (induction kns arbitrary: st)
  case Nil
  then show ?case by simp
next
  case (Cons kn kns)
  then show ?case
    by (auto simp: circularError_def split: if_splits prod.splits bool.splits)
qed

lemma pass_kinds:
  "e \<in> set (detectOrphanNodes g) \<Longrightarrow> etype e = orphan \<and> severity e = Warning"
  "e \<in> set (detectUnreachableNodes g) \<Longrightarrow> etype e = unreachable \<and> severity e = Error"
  "e \<in> set (detectBrokenChains g) \<Longrightarrow> etype e = broken_chain \<and> severity e = Error"
  "e \<in> set (detectCircularDependencies g) \<Longrightarrow> etype e = circular_dependency \<and> severity e = Error"
  "e \<in> set (validatePrerequisites g) \<Longrightarrow> etype e = missing_prerequisites \<and> severity e = Error"
  "e \<in> set (validateConditions g) \<Longrightarrow> etype e = invalid_condition \<and> severity e = Error"
proof -
  show "e \<in> set (detectOrphanNodes g) \<Longrightarrow> etype e = orphan \<and> severity e = Warning"
    by (auto simp: detectOrphanNodes_def orphanError_def)
  show "e \<in> set (detectUnreachableNodes g) \<Longrightarrow> etype e = unreachable \<and> severity e = Error"
    by (auto simp: detectUnreachableNodes_def unreachableError_def)
  show "e \<in> set (detectBrokenChains g) \<Longrightarrow> etype e = broken_chain \<and> severity e = Error"
    by (auto simp: detectBrokenChains_def brokenChainError_def)
  show "e \<in> set (detectCircularDependencies g) \<Longrightarrow> etype e = circular_dependency \<and> severity e = Error"
    by (simp add: detectCircularDependencies_def circularLoop_kind)
  show "e \<in> set (validatePrerequisites g) \<Longrightarrow> etype e = missing_prerequisites \<and> severity e = Error"
    by (auto simp: validatePrerequisites_def missingPrerequisiteError_def split: if_splits)
  show "e \<in> set (validateConditions g) \<Longrightarrow> etype e = invalid_condition \<and> severity e = Error"
    by (auto simp: validateConditions_def prerequisiteConditionError_def
        outcomeConditionError_def split: if_splits)
qed

lemma filter_all: "(\<And>x. x \<in> set xs \<Longrightarrow> P x) \<Longrightarrow> filter P xs = xs"
  by (induction xs) auto

lemma filter_none: "(\<And>x. x \<in> set xs \<Longrightarrow> \<not> P x) \<Longrightarrow> filter P xs = []"
  by (induction xs) auto

lemma validateStoryGraph_errors:
  "errors (validateStoryGraph storyArcs quests dialogues) =
     detectUnreachableNodes (buildGraph storyArcs quests dialogues)
     @ detectBrokenChains (buildGraph storyArcs quests dialogues)
     @ detectCircularDependencies (buildGraph storyArcs quests dialogues)
     @ validatePrerequisites (buildGraph storyArcs quests dialogues)
     @ validateConditions (buildGraph storyArcs quests dialogues)"
proof -
  let ?g = "buildGraph storyArcs quests dialogues"
  have "filter isError (detectOrphanNodes ?g) = []"
    by (rule filter_none) (simp add: isError_def pass_kinds)
  moreover have "filter isError (detectUnreachableNodes ?g) = detectUnreachableNodes ?g"
    "filter isError (detectBrokenChains ?g) = detectBrokenChains ?g"
    "filter isError (detectCircularDependencies ?g) = detectCircularDependencies ?g"
    "filter isError (validatePrerequisites ?g) = validatePrerequisites ?g"
    "filter isError (validateConditions ?g) = validateConditions ?g"
    by (rule filter_all, simp add: isError_def pass_kinds)+
  ultimately show ?thesis by (simp add: validateStoryGraph_def Let_def)
qed

lemma validateStoryGraph_warnings:
  "warnings (validateStoryGraph storyArcs quests dialogues) =
     detectOrphanNodes (buildGraph storyArcs quests dialogues)"
proof -
  let ?g = "buildGraph storyArcs quests dialogues"
  have "filter isWarning (detectOrphanNodes ?g) = detectOrphanNodes ?g"
    by (rule filter_all) (simp add: isWarning_def pass_kinds)
  moreover have "filter isWarning (detectUnreachableNodes ?g) = []"
    "filter isWarning (detectBrokenChains ?g) = []"
    "filter isWarning (detectCircularDependencies ?g) = []"
    "filter isWarning (validatePrerequisites ?g) = []"
    "filter isWarning (validateConditions ?g) = []"
    by (rule filter_none, simp add: isWarning_def pass_kinds)+
  ultimately show ?thesis by (simp add: validateStoryGraph_def Let_def)
qed

lemma validateStoryGraph_summary:
  "summary (validateStoryGraph storyArcs quests dialogues) =
     generateSummary (buildGraph storyArcs quests dialogues)
       (errors (validateStoryGraph storyArcs quests dialogues))
       (warnings (validateStoryGraph storyArcs quests dialogues))"
  by (simp add: validateStoryGraph_def Let_def)


section \<open>The summary\<close>

lemma filter_etype:
  assumes "\<And>e. e \<in> set xs \<Longrightarrow> etype e = t'"
  shows "filter (\<lambda>e. etype e = t) xs = (if t = t' then xs else [])"
  using assms by (induction xs) auto

lemma pass_filters:
  "filter (\<lambda>e. etype e = t) (detectOrphanNodes g) = (if t = orphan then detectOrphanNodes g else [])"
  "filter (\<lambda>e. etype e = t) (detectUnreachableNodes g)
     = (if t = unreachable then detectUnreachableNodes g else [])"
  "filter (\<lambda>e. etype e = t) (detectBrokenChains g)
     = (if t = broken_chain then detectBrokenChains g else [])"
  "filter (\<lambda>e. etype e = t) (detectCircularDependencies g)
     = (if t = circular_dependency then detectCircularDependencies g else [])"
  "filter (\<lambda>e. etype e = t) (validatePrerequisites g)
     = (if t = missing_prerequisites then validatePrerequisites g else [])"
  "filter (\<lambda>e. etype e = t) (validateConditions g)
     = (if t = invalid_condition then validateConditions g else [])"
  by (rule filter_etype, simp add: pass_kinds)+

lemma summary_counts:
  "orphanNodes (summary (validateStoryGraph storyArcs quests dialogues)) = 0"
  "unreachableNodes (summary (validateStoryGraph storyArcs quests dialogues))
     = length (detectUnreachableNodes (buildGraph storyArcs quests dialogues))"
  "brokenChains (summary (validateStoryGraph storyArcs quests dialogues))
     = length (detectBrokenChains (buildGraph storyArcs quests dialogues))"
  "circularDependencies (summary (validateStoryGraph storyArcs quests dialogues))
     = length (detectCircularDependencies (buildGraph storyArcs quests dialogues))"
  by (simp_all add: validateStoryGraph_summary generateSummary_def validateStoryGraph_errors
      pass_filters)

text \<open>
  C9. The summary should count the findings of each category. \<open>generateSummary\<close> counts
  in the list \<open>errors\<close> only, and every orphan finding has severity warning, so
  \<open>summary.orphanNodes\<close> is 0 for every project. A project of one story arc and nothing
  else produces one orphan finding and the count 0.
\<close>

theorem orphan_count_is_zero:
  "orphanNodes (summary (validateStoryGraph storyArcs quests dialogues)) = 0
   \<and> map etype (warnings (validateStoryGraph [loneArc] [] [])) = [orphan]
   \<and> errors (validateStoryGraph [loneArc] [] []) = []
   \<and> orphanNodes (summary (validateStoryGraph [loneArc] [] [])) = 0"
proof -
  have "map etype (detectOrphanNodes (buildGraph [loneArc] [] [])) = [orphan]"
    by (simp add: loneArc_graph detectOrphanNodes_def orphanError_def)
  moreover have "detectUnreachableNodes (buildGraph [loneArc] [] []) = []"
    by (simp add: loneArc_graph detectUnreachableNodes_def reachedFromStart_def startNodes_def)
  moreover have "detectBrokenChains (buildGraph [loneArc] [] []) = []"
    by (simp add: loneArc_graph detectBrokenChains_def)
  moreover have "detectCircularDependencies (buildGraph [loneArc] [] []) = []"
    by (simp add: loneArc_graph detectCircularDependencies_def)
  moreover have "validatePrerequisites (buildGraph [loneArc] [] []) = []"
    by (simp add: loneArc_graph validatePrerequisites_def)
  moreover have "validateConditions (buildGraph [loneArc] [] []) = []"
    by (simp add: loneArc_graph validateConditions_def)
  ultimately show ?thesis
    by (simp add: summary_counts validateStoryGraph_errors validateStoryGraph_warnings)
qed

text \<open>
  The counts of the other three categories are the numbers of findings: those findings
  all have severity error, and no other pass produces their type.
\<close>

theorem summary_error_counts:
  "unreachableNodes (summary (validateStoryGraph storyArcs quests dialogues))
     = length (filter (\<lambda>e. etype e = unreachable)
         (errors (validateStoryGraph storyArcs quests dialogues)
          @ warnings (validateStoryGraph storyArcs quests dialogues)))
   \<and> brokenChains (summary (validateStoryGraph storyArcs quests dialogues))
     = length (filter (\<lambda>e. etype e = broken_chain)
         (errors (validateStoryGraph storyArcs quests dialogues)
          @ warnings (validateStoryGraph storyArcs quests dialogues)))
   \<and> circularDependencies (summary (validateStoryGraph storyArcs quests dialogues))
     = length (filter (\<lambda>e. etype e = circular_dependency)
         (errors (validateStoryGraph storyArcs quests dialogues)
          @ warnings (validateStoryGraph storyArcs quests dialogues)))"
  by (simp add: validateStoryGraph_summary generateSummary_def validateStoryGraph_warnings
      pass_filters)

section \<open>Conditions\<close>

lemma invalid_condition_count:
  "length (filter (\<lambda>e. etype e = invalid_condition) (validateConditions g))
     = length (filter (\<lambda>c. \<not> isValidCondition c) (questConditions g))"
proof -
  have "filter (\<lambda>e. etype e = invalid_condition) (validateConditions g) = validateConditions g"
    by (rule filter_all) (simp add: pass_kinds)
  moreover have "length (concat (map (\<lambda>kn.
         if ntype (snd kn) = QuestNode
         then map (\<lambda>c. prerequisiteConditionError kn)
                (filter (\<lambda>c. \<not> isValidCondition c) (prerequisiteConditions (snd kn)))
              @ map (\<lambda>c. outcomeConditionError kn)
                (filter (\<lambda>c. \<not> isValidCondition c) (outcomeConditions (snd kn)))
         else []) ns))
      = length (filter (\<lambda>c. \<not> isValidCondition c)
          (concat (map (\<lambda>kn. if ntype (snd kn) = QuestNode
                       then prerequisiteConditions (snd kn) @ outcomeConditions (snd kn)
                       else []) ns)))" for ns :: "(string \<times> node) list"
    by (induction ns) simp_all
  ultimately show ?thesis by (simp add: validateConditions_def questConditions_def)
qed


text \<open>
  C5 (amended). For the conditions of the prerequisites and outcomes of the quest nodes,
  whole-graph validation emits one \<open>invalid_condition\<close> error for each condition that
  \<open>isValidCondition\<close> rejects. A condition with no value is rejected. A condition whose
  value is present and truthy is accepted exactly when its type is one of \<open>stat\<close>,
  \<open>inventory\<close>, \<open>flag\<close>, \<open>quest\<close>, its operator is one of the eight operators, and it
  does not pair \<open>stat\<close> with \<open>has\<close> or \<open>not_has\<close>. The type \<open>reputation\<close> is not
  accepted: every condition of that type is reported.
\<close>

theorem invalid_condition_rule:
  "(cvalue c = None \<longrightarrow> \<not> isValidCondition c)
   \<and> (truthy (cvalue c) \<longrightarrow>
        (isValidCondition c \<longleftrightarrow>
           (\<exists>t op. ctype c = Some t \<and> operator c = Some op
              \<and> t \<in> {''stat'', ''inventory'', ''flag'', ''quest''}
              \<and> op \<in> {''eq'', ''gt'', ''lt'', ''gte'', ''lte'', ''ne'', ''has'', ''not_has''}
              \<and> \<not> (t = ''stat'' \<and> (op = ''has'' \<or> op = ''not_has'')))))
   \<and> (ctype c = Some ''reputation'' \<longrightarrow> \<not> isValidCondition c)
   \<and> length (filter (\<lambda>e. etype e = invalid_condition)
         (errors (validateStoryGraph storyArcs quests dialogues)))
       = length (filter (\<lambda>c. \<not> isValidCondition c)
           (questConditions (buildGraph storyArcs quests dialogues)))"
proof (intro conjI impI)
  show "\<not> isValidCondition c" if "cvalue c = None"
    using that by (simp add: isValidCondition_def)
  show "isValidCondition c \<longleftrightarrow>
           (\<exists>t op. ctype c = Some t \<and> operator c = Some op
              \<and> t \<in> {''stat'', ''inventory'', ''flag'', ''quest''}
              \<and> op \<in> {''eq'', ''gt'', ''lt'', ''gte'', ''lte'', ''ne'', ''has'', ''not_has''}
              \<and> \<not> (t = ''stat'' \<and> (op = ''has'' \<or> op = ''not_has'')))"
    if "truthy (cvalue c)"
  proof (cases "ctype c")
    case None
    then show ?thesis by (simp add: isValidCondition_def truthyStr_def)
  next
    case t: (Some t)
    show ?thesis
    proof (cases "operator c")
      case None
      then show ?thesis by (simp add: isValidCondition_def truthyStr_def)
    next
      case (Some op)
      with t that show ?thesis
        by (auto simp: isValidCondition_def truthyStr_def tpl_def validTypes_def
            validOperators_def)
    qed
  qed
  show "\<not> isValidCondition c" if "ctype c = Some ''reputation''"
    using that by (simp add: isValidCondition_def tpl_def validTypes_def)
  let ?g = "buildGraph storyArcs quests dialogues"
  have "filter (\<lambda>e. etype e = invalid_condition)
          (errors (validateStoryGraph storyArcs quests dialogues))
        = filter (\<lambda>e. etype e = invalid_condition) (validateConditions ?g)"
  proof -
    have "filter (\<lambda>e. etype e = invalid_condition) (detectUnreachableNodes ?g) = []"
      "filter (\<lambda>e. etype e = invalid_condition) (detectBrokenChains ?g) = []"
      "filter (\<lambda>e. etype e = invalid_condition) (detectCircularDependencies ?g) = []"
      "filter (\<lambda>e. etype e = invalid_condition) (validatePrerequisites ?g) = []"
      by (rule filter_none, simp add: pass_kinds)+
    then show ?thesis by (simp add: validateStoryGraph_errors)
  qed
  then show "length (filter (\<lambda>e. etype e = invalid_condition)
         (errors (validateStoryGraph storyArcs quests dialogues)))
       = length (filter (\<lambda>c. \<not> isValidCondition c) (questConditions ?g))"
    by (simp add: invalid_condition_count)
qed

lemma guardedQuest_graph:
  "nodes (buildGraph [] [guardedQuest] []) =
     [(''q3'', \<lparr>node_id = ''q3'', ntype = QuestNode, label = ''Audience'',
               ndata = QuestData guardedQuest, incoming = [Some ''q0''], outgoing = []\<rparr>)]"
  by (simp add: graph_defs guardedQuest_def)

lemma guardedQuest_fields:
  "prerequisites guardedQuest =
     Some [\<lparr>prereq_id = Some ''q0'', prereq_conditions = Some [reputationCondition, levelCondition],
            prereq_type = None, prereq_target = None, prereq_value = None\<rparr>]"
  "outcomes guardedQuest = None"
  by (simp_all add: guardedQuest_def)

lemma condition_examples:
  "\<not> isValidCondition reputationCondition" "isValidCondition levelCondition"
  "\<not> isValidCondition unsetCondition"
  by (simp_all add: isValidCondition_def reputationCondition_def levelCondition_def
      unsetCondition_def truthyStr_def tpl_def validTypes_def validOperators_def)

theorem invalid_condition_rule_witness:
  "cvalue unsetCondition = None \<and> \<not> isValidCondition unsetCondition
   \<and> truthy (cvalue levelCondition) \<and> isValidCondition levelCondition
   \<and> ctype reputationCondition = Some ''reputation'' \<and> \<not> isValidCondition reputationCondition
   \<and> length (filter (\<lambda>e. etype e = invalid_condition)
        (errors (validateStoryGraph [] [guardedQuest] []))) = 1"
proof -
  have a: "cvalue unsetCondition = None" by (simp add: unsetCondition_def)
  have b: "truthy (cvalue levelCondition)" "ctype levelCondition = Some ''stat''"
    "operator levelCondition = Some ''gte''"
    by (simp_all add: levelCondition_def)
  have c: "ctype reputationCondition = Some ''reputation''" by (simp add: reputationCondition_def)
  have d: "questConditions (buildGraph [] [guardedQuest] []) = [reputationCondition, levelCondition]"
    by (simp add: questConditions_def guardedQuest_graph prerequisiteConditions_def
        outcomeConditions_def declaredPrerequisites_def declaredOutcomes_def optList_def
        guardedQuest_fields)
  from invalid_condition_rule [of unsetCondition "[]" "[guardedQuest]" "[]"] a
  have 1: "\<not> isValidCondition unsetCondition" by blast
  from invalid_condition_rule [of levelCondition "[]" "[guardedQuest]" "[]"] b
  have 2: "isValidCondition levelCondition" by simp
  from invalid_condition_rule [of reputationCondition "[]" "[guardedQuest]" "[]"] c
  have 3: "\<not> isValidCondition reputationCondition"
    and 4: "length (filter (\<lambda>e. etype e = invalid_condition)
        (errors (validateStoryGraph [] [guardedQuest] [])))
       = length (filter (\<lambda>c. \<not> isValidCondition c)
           (questConditions (buildGraph [] [guardedQuest] [])))"
    by blast+
  from 4 d 2 3 have "length (filter (\<lambda>e. etype e = invalid_condition)
        (errors (validateStoryGraph [] [guardedQuest] []))) = 1" by simp
  with a b(1) c 1 2 3 show ?thesis by simp
qed

text \<open>
  The claim as stated fails on a \<open>reputation\<close> condition with the operator \<open>gte\<close> and
  the value 10: all three fields are present, and the validator reports it.
\<close>

theorem reputation_condition_counterexample:
  "ctype reputationCondition = Some ''reputation''
   \<and> operator reputationCondition = Some ''gte''
   \<and> cvalue reputationCondition = Some (VNum 10)
   \<and> \<not> isValidCondition reputationCondition
   \<and> optList (prerequisites guardedQuest) =
       [\<lparr>prereq_id = Some ''q0'', prereq_conditions = Some [reputationCondition, levelCondition],
         prereq_type = None, prereq_target = None, prereq_value = None\<rparr>]
   \<and> filter (\<lambda>e. etype e = invalid_condition) (errors (validateStoryGraph [] [guardedQuest] []))
       = [\<lparr>etype = invalid_condition, nodeId = Some ''q3'',
           message = InvalidConditionInPrerequisites ''Audience'', severity = Error,
           suggestions = Some conditionSuggestions\<rparr>]"
proof -
  have "validateConditions (buildGraph [] [guardedQuest] [])
      = [\<lparr>etype = invalid_condition, nodeId = Some ''q3'',
           message = InvalidConditionInPrerequisites ''Audience'', severity = Error,
           suggestions = Some conditionSuggestions\<rparr>]"
    by (simp add: validateConditions_def guardedQuest_graph prerequisiteConditions_def
        outcomeConditions_def declaredPrerequisites_def declaredOutcomes_def optList_def
        guardedQuest_fields condition_examples prerequisiteConditionError_def)
  moreover have "filter (\<lambda>e. etype e = invalid_condition)
        (errors (validateStoryGraph [] [guardedQuest] []))
      = filter (\<lambda>e. etype e = invalid_condition) (validateConditions (buildGraph [] [guardedQuest] []))"
  proof -
    let ?g = "buildGraph [] [guardedQuest] []"
    have "filter (\<lambda>e. etype e = invalid_condition) (detectUnreachableNodes ?g) = []"
      "filter (\<lambda>e. etype e = invalid_condition) (detectBrokenChains ?g) = []"
      "filter (\<lambda>e. etype e = invalid_condition) (detectCircularDependencies ?g) = []"
      "filter (\<lambda>e. etype e = invalid_condition) (validatePrerequisites ?g) = []"
      by (rule filter_none, simp add: pass_kinds)+
    then show ?thesis by (simp add: validateStoryGraph_errors)
  qed
  moreover have "ctype reputationCondition = Some ''reputation''"
    "operator reputationCondition = Some ''gte''" "cvalue reputationCondition = Some (VNum 10)"
    by (simp_all add: reputationCondition_def)
  ultimately show ?thesis
    by (simp add: condition_examples guardedQuest_fields optList_def)
qed


section \<open>Outcome probabilities\<close>














end
